theory Spec2Isabelle
  imports Complex_Main "HOL-Library.Sublist"
begin

section \<open>JavaScript values\<close>

text \<open>
  The values that travel through the tool handlers of \<^verbatim>\<open>src/app/api/[transport]/route.ts\<close>:
  argument bags, script results, HTTP payloads and the result envelopes are all plain
  JavaScript values. An object is the list of its own enumerable entries, in the order
  \<^verbatim>\<open>Object.entries\<close> gives them. Numbers carry a real payload (NaN and the infinities
  are not represented; no function below computes with a number).
\<close>

datatype js_value =
    JUndefined
  | JNull
  | JBool bool
  | JNum real
  | JStr string
  | JArray "js_value list"
  | JObject "(string \<times> js_value) list"

text \<open>The \<^verbatim>\<open>typeof\<close> operator.\<close>

fun typeof :: "js_value \<Rightarrow> string" where
  "typeof JUndefined = ''undefined''"
| "typeof JNull = ''object''"
| "typeof (JBool b) = ''boolean''"
| "typeof (JNum n) = ''number''"
| "typeof (JStr s) = ''string''"
| "typeof (JArray xs) = ''object''"
| "typeof (JObject kvs) = ''object''"

text \<open>Truthiness of a value, as \<^verbatim>\<open>if (v)\<close> and \<^verbatim>\<open>v || w\<close> test it.\<close>

fun truthy :: "js_value \<Rightarrow> bool" where
  "truthy JUndefined = False"
| "truthy JNull = False"
| "truthy (JBool b) = b"
| "truthy (JNum n) = (n \<noteq> 0)"
| "truthy (JStr s) = (s \<noteq> [])"
| "truthy (JArray xs) = True"
| "truthy (JObject kvs) = True"

text \<open>
  Property assignment \<^verbatim>\<open>obj[key] = value\<close>: an existing own property keeps its place and
  takes the new value, a new property is added at the end.
\<close>

primrec obj_set :: "string \<Rightarrow> 'a \<Rightarrow> (string \<times> 'a) list \<Rightarrow> (string \<times> 'a) list" where
  "obj_set k v [] = [(k, v)]"
| "obj_set k v (p # ps) = (if fst p = k then (k, v) # ps else p # obj_set k v ps)"

text \<open>Property read \<^verbatim>\<open>obj.key\<close> on a value; \<^verbatim>\<open>undefined\<close> when absent.\<close>

fun js_get :: "js_value \<Rightarrow> string \<Rightarrow> js_value" where
  "js_get (JObject kvs) k = (case map_of kvs k of Some v \<Rightarrow> v | None \<Rightarrow> JUndefined)"
| "js_get v k = JUndefined"

fun isArray :: "js_value \<Rightarrow> bool" where
  "isArray (JArray xs) = True"
| "isArray v = False"

text \<open>An exception in flight: \<^verbatim>\<open>new Error(message)\<close>, or any other thrown value.\<close>

datatype js_thrown = ErrorObject string | NonError js_value

section \<open>Types of custom tools\<close>

record ParameterSchema =
  ptype :: string
  description :: "string option"
  penum :: "string list option"
  minimum :: "real option"
  maximum :: "real option"
  pdefault :: "js_value option"

record ToolSchema =
  stype :: string
  properties :: "(string \<times> ParameterSchema) list option"
  required :: "string list option"

datatype http_method = GET | POST | PUT | DELETE | PATCH

record ApiConfig =
  url :: string
  api_method :: http_method
  headers :: "(string \<times> string) list option"

datatype custom_type = normal | api

record CustomTool =
  name :: string
  tool_description :: "string option"
  inputSchema :: "ToolSchema option"
  querySchema :: "ToolSchema option"
  isCustom :: "bool option"
  customType :: "custom_type option"
  apiConfig :: "ApiConfig option"
  customLogic :: "string option"

section \<open>Validators\<close>

text \<open>
  The validator objects that \<^verbatim>\<open>parameterToZodSchema\<close> builds. They are values of the zod
  library; the datatype records which constructor and which chained calls the source
  makes: \<^verbatim>\<open>z.string()\<close>, \<^verbatim>\<open>z.enum(values)\<close>, \<^verbatim>\<open>z.number()\<close> with its chained checks
  \<^verbatim>\<open>.int()\<close>, \<^verbatim>\<open>.min(a)\<close>, \<^verbatim>\<open>.max(b)\<close>, \<^verbatim>\<open>z.boolean()\<close>, and the wrappers
  \<^verbatim>\<open>.describe(d)\<close>, \<^verbatim>\<open>.default(v)\<close> and \<^verbatim>\<open>.optional()\<close>.
\<close>

datatype zod_check = CheckInt | CheckMin real | CheckMax real

datatype zod_schema =
    ZString
  | ZEnum "string list"
  | ZNumber "zod_check list"
  | ZBoolean
  | ZDescribe zod_schema string
  | ZDefault zod_schema js_value
  | ZOptional zod_schema

text \<open>\<^verbatim>\<open>(schema as z.ZodNumber).min(a)\<close> and \<^verbatim>\<open>.max(b)\<close>: a further check on a number schema.\<close>

fun zod_min :: "zod_schema \<Rightarrow> real \<Rightarrow> zod_schema" where
  "zod_min (ZNumber cs) a = ZNumber (cs @ [CheckMin a])"
| "zod_min s a = s"

fun zod_max :: "zod_schema \<Rightarrow> real \<Rightarrow> zod_schema" where
  "zod_max (ZNumber cs) b = ZNumber (cs @ [CheckMax b])"
| "zod_max s b = s"

text \<open>Convert parameter schema to Zod schema (route.ts, lines 54 to 98).\<close>

definition parameterToZodSchema :: "ParameterSchema \<Rightarrow> zod_schema" where
  "parameterToZodSchema param =
    (let schema =
       (if ptype param = ''string'' then
          (case penum param of Some vs \<Rightarrow> ZEnum vs | None \<Rightarrow> ZString)
        else if ptype param = ''number'' then
          (let s1 = (case minimum param of Some a \<Rightarrow> zod_min (ZNumber []) a | None \<Rightarrow> ZNumber []);
               s2 = (case maximum param of Some b \<Rightarrow> zod_max s1 b | None \<Rightarrow> s1)
           in s2)
        else if ptype param = ''integer'' then
          (let s1 = (case minimum param of Some a \<Rightarrow> zod_min (ZNumber [CheckInt]) a
                     | None \<Rightarrow> ZNumber [CheckInt]);
               s2 = (case maximum param of Some b \<Rightarrow> zod_max s1 b | None \<Rightarrow> s1)
           in s2)
        else if ptype param = ''boolean'' then ZBoolean
        else ZString);
         schema2 = (case description param of
                      Some d \<Rightarrow> (if d \<noteq> [] then ZDescribe schema d else schema)
                    | None \<Rightarrow> schema);
         schema3 = (case pdefault param of Some v \<Rightarrow> ZDefault schema2 v | None \<Rightarrow> schema2)
     in schema3)"

text \<open>
  Convert custom tool schema to Zod object (route.ts, lines 101 to 118). The object is
  used by its keys only and is a map from the parameter names.
\<close>

definition buildZodSchema :: "ToolSchema option \<Rightarrow> (string \<rightharpoonup> zod_schema)" where
  "buildZodSchema toolSchema =
    (case toolSchema of
       None \<Rightarrow> Map.empty
     | Some ts \<Rightarrow>
        (case properties ts of
           None \<Rightarrow> Map.empty
         | Some props \<Rightarrow>
             fold (\<lambda>(key, param) zodSchema.
                     let schema = parameterToZodSchema param;
                         schema' = (if (case required ts of Some r \<Rightarrow> key \<in> set r | None \<Rightarrow> False)
                                    then schema else ZOptional schema)
                     in zodSchema(key \<mapsto> schema'))
                  props Map.empty))"

text \<open>
  Modelled from the spec: what a compiled validator does with a raw value is code of the
  zod library, which is not part of the repository. The outcome follows section 4.1 of
  the specification: a value is accepted and returned, or refused with a
  \<open>ValidationError\<close>. Rule (1): under an enum the value must equal one of the members
  exactly. Rule (2): a number kind needs a numeric value, with zero fractional part for
  an integer. Rule (3): bounds are inclusive. Rules (4) and (5): an omitted value
  (\<^verbatim>\<open>undefined\<close>) takes the declared default before validation, is treated as absent under
  \<^verbatim>\<open>optional\<close>, and is otherwise missing. A description changes nothing.
\<close>

datatype ValidationError = TypeMismatch | EnumMismatch | OutOfRange | MissingRequired

fun run_check :: "zod_check \<Rightarrow> real \<Rightarrow> ValidationError option" where
  "run_check CheckInt x = (if of_int \<lfloor>x\<rfloor> = x then None else Some TypeMismatch)"
| "run_check (CheckMin a) x = (if a \<le> x then None else Some OutOfRange)"
| "run_check (CheckMax b) x = (if x \<le> b then None else Some OutOfRange)"

fun run_checks :: "zod_check list \<Rightarrow> real \<Rightarrow> ValidationError option" where
  "run_checks [] x = None"
| "run_checks (c # cs) x = (case run_check c x of Some e \<Rightarrow> Some e | None \<Rightarrow> run_checks cs x)"

fun validate :: "zod_schema \<Rightarrow> js_value \<Rightarrow> ValidationError + js_value" where
  "validate ZString v =
     (case v of JStr s \<Rightarrow> Inr v | JUndefined \<Rightarrow> Inl MissingRequired | _ \<Rightarrow> Inl TypeMismatch)"
| "validate (ZEnum vs) v =
     (case v of
        JStr s \<Rightarrow> (if s \<in> set vs then Inr v else Inl EnumMismatch)
      | JUndefined \<Rightarrow> Inl MissingRequired
      | _ \<Rightarrow> Inl EnumMismatch)"
| "validate (ZNumber cs) v =
     (case v of
        JNum x \<Rightarrow> (case run_checks cs x of Some e \<Rightarrow> Inl e | None \<Rightarrow> Inr v)
      | JUndefined \<Rightarrow> Inl MissingRequired
      | _ \<Rightarrow> Inl TypeMismatch)"
| "validate ZBoolean v =
     (case v of JBool b \<Rightarrow> Inr v | JUndefined \<Rightarrow> Inl MissingRequired | _ \<Rightarrow> Inl TypeMismatch)"
| "validate (ZDescribe s d) v = validate s v"
| "validate (ZDefault s d) v = (if v = JUndefined then validate s d else validate s v)"
| "validate (ZOptional s) v = (if v = JUndefined then Inr JUndefined else validate s v)"

section \<open>The JavaScript runtime\<close>

text \<open>
  What the handlers ask of the platform and cannot be written as a function of this
  development is taken as a parameter: the JSON codec, \<^verbatim>\<open>String(v)\<close>, the serialisation of
  \<^verbatim>\<open>URLSearchParams\<close>, the evaluation of a script text (\<^verbatim>\<open>new Function\<close> applied to the
  argument bag, with the awaited outcome: a returned value or a thrown one) and the
  network (\<^verbatim>\<open>fetch\<close> followed by \<^verbatim>\<open>response.text()\<close>). Every theorem below holds for every
  runtime. A script is taken by its outcome; what it may do to the process through the
  global object is not represented.

  What a script throws is a thrown value as above, with one more case: an \<^verbatim>\<open>Error\<close> whose
  \<^verbatim>\<open>message\<close> cannot be converted to a string (a symbol, or a getter that throws), with
  the exception that the conversion throws. \<open>ErrorObject s\<close> is an \<^verbatim>\<open>Error\<close> whose message
  converts to the string \<open>s\<close>.
\<close>

datatype script_thrown = Thrown js_thrown | ThrownBadMessage js_thrown

record http_request =
  req_url :: string
  req_method :: http_method
  req_headers :: "(string \<times> string) list"
  req_body :: "string option"

record http_response =
  ok :: bool
  status :: int
  statusText :: string
  response_text :: string

record js_runtime =
  JSON_stringify :: "js_value \<Rightarrow> string"
  JSON_stringify_pretty :: "js_value \<Rightarrow> string"
  JSON_parse :: "string \<Rightarrow> js_value option"
  String_of :: "js_value \<Rightarrow> string"
  URLSearchParams_toString :: "(string \<times> string) list \<Rightarrow> string"
  run_script :: "string \<Rightarrow> (string \<times> js_value) list \<Rightarrow> script_thrown + js_value"
  fetch :: "http_request \<Rightarrow> js_thrown + http_response"

text \<open>
  \<^verbatim>\<open>String.prototype.trim\<close>. Strings are sequences of UTF-8 bytes; the white space of
  ECMAScript is TAB, LF, VT, FF, CR, SP, U+00A0, U+1680, U+2000 to U+200A, U+2028, U+2029,
  U+202F, U+205F, U+3000 and U+FEFF, each by its bytes.
\<close>

definition white_space :: "string list" where
  "white_space =
     [[CHR 0x09], [CHR 0x0A], [CHR 0x0B], [CHR 0x0C], [CHR 0x0D], [CHR 0x20],
      [CHR 0xC2, CHR 0xA0], [CHR 0xE1, CHR 0x9A, CHR 0x80],
      [CHR 0xE2, CHR 0x80, CHR 0x80], [CHR 0xE2, CHR 0x80, CHR 0x81], [CHR 0xE2, CHR 0x80, CHR 0x82],
      [CHR 0xE2, CHR 0x80, CHR 0x83], [CHR 0xE2, CHR 0x80, CHR 0x84], [CHR 0xE2, CHR 0x80, CHR 0x85],
      [CHR 0xE2, CHR 0x80, CHR 0x86], [CHR 0xE2, CHR 0x80, CHR 0x87], [CHR 0xE2, CHR 0x80, CHR 0x88],
      [CHR 0xE2, CHR 0x80, CHR 0x89], [CHR 0xE2, CHR 0x80, CHR 0x8A],
      [CHR 0xE2, CHR 0x80, CHR 0xA8], [CHR 0xE2, CHR 0x80, CHR 0xA9], [CHR 0xE2, CHR 0x80, CHR 0xAF],
      [CHR 0xE2, CHR 0x81, CHR 0x9F], [CHR 0xE3, CHR 0x80, CHR 0x80], [CHR 0xEF, CHR 0xBB, CHR 0xBF]]"

text \<open>The string after the first of the sequences \<open>ws\<close> that it starts with, if there is one.\<close>

fun strip_prefix :: "string list \<Rightarrow> string \<Rightarrow> string option" where
  "strip_prefix [] s = None"
| "strip_prefix (w # ws) s =
     (if w \<noteq> [] \<and> prefix w s then Some (drop (length w) s) else strip_prefix ws s)"

function strip_all :: "string list \<Rightarrow> string \<Rightarrow> string" where
  "strip_all ws s = (case strip_prefix ws s of None \<Rightarrow> s | Some s' \<Rightarrow> strip_all ws s')"
  by pat_completeness auto
termination
proof (relation "measure (\<lambda>p. length (snd p))")
  show "wf (measure (\<lambda>p. length (snd p)))" by simp
next
  fix ws :: "string list" and s s' :: string
  assume a: "strip_prefix ws s = Some s'"
  have "strip_prefix vs s = Some s' \<Longrightarrow> length s' < length s" for vs
    by (induction vs) (auto simp: prefix_def split: if_splits)
  then show "((ws, s'), (ws, s)) \<in> measure (\<lambda>p. length (snd p))" using a by simp
qed

declare strip_all.simps [simp del]

definition trim :: "string \<Rightarrow> string" where
  "trim s = rev (strip_all (map rev white_space) (rev (strip_all white_space s)))"

text \<open>The result envelope with one text block: \<^verbatim>\<open>{ content: [{ type: "text", text }] }\<close>.\<close>

definition text_result :: "string \<Rightarrow> js_value" where
  "text_result t =
     JObject [(''content'', JArray [JObject [(''type'', JStr ''text''), (''text'', JStr t)]])]"

text \<open>The texts of the blocks of an envelope, and its error flag.\<close>

fun block_texts :: "js_value list \<Rightarrow> string list" where
  "block_texts [] = []"
| "block_texts (b # bs) =
     (case js_get b ''text'' of JStr t \<Rightarrow> t # block_texts bs | _ \<Rightarrow> block_texts bs)"

definition result_texts :: "js_value \<Rightarrow> string list" where
  "result_texts r = (case js_get r ''content'' of JArray bs \<Rightarrow> block_texts bs | _ \<Rightarrow> [])"

definition isError :: "js_value \<Rightarrow> js_value" where
  "isError r = js_get r ''isError''"

text \<open>The pictographs of the messages, as their UTF-8 bytes.\<close>

definition cross_mark :: string where
  "cross_mark = [CHR 0xE2, CHR 0x9D, CHR 0x8C]"

definition hammer_and_wrench :: string where
  "hammer_and_wrench = [CHR 0xF0, CHR 0x9F, CHR 0x9B, CHR 0xA0, CHR 0xEF, CHR 0xB8, CHR 0x8F]"

definition warning_sign :: string where
  "warning_sign = [CHR 0xE2, CHR 0x9A, CHR 0xA0, CHR 0xEF, CHR 0xB8, CHR 0x8F]"

definition newline :: string where
  "newline = [CHR 0x0A]"

section \<open>Custom logic tools\<close>

text \<open>
  The body of the \<^verbatim>\<open>try\<close> block of \<^verbatim>\<open>executeCustomLogic\<close> (route.ts, lines 122 to 201):
  \<open>Inl\<close> is an exception leaving the block.
\<close>

definition customLogic_try :: "js_runtime \<Rightarrow> CustomTool \<Rightarrow> (string \<times> js_value) list \<Rightarrow> script_thrown + js_value" where
  "customLogic_try rt tool params =
    (if (case customLogic tool of None \<Rightarrow> True | Some src \<Rightarrow> src = [] \<or> trim src = [])
     then Inr (text_result
            (hammer_and_wrench @ '' Custom Tool \"'' @ name tool @ ''\" executed with parameters:'' @ newline
             @ JSON_stringify_pretty rt (JObject params) @ newline @ newline
             @ warning_sign @ '' No custom logic defined for this tool.''))
     else
       (case run_script rt (the (customLogic tool)) params of
          Inl thrown \<Rightarrow> Inl thrown
        | Inr result \<Rightarrow>
            (if typeof result = ''string'' then
               Inr (text_result (case result of JStr s \<Rightarrow> s | _ \<Rightarrow> []))
             else if truthy result \<and> typeof result = ''object'' then
               (if truthy (js_get result ''content'') \<and> isArray (js_get result ''content'')
                then Inr result
                else Inr (text_result
                       (hammer_and_wrench @ '' '' @ name tool @ '' Result:'' @ newline
                        @ JSON_stringify_pretty rt result)))
             else
               Inr (text_result
                      (hammer_and_wrench @ '' '' @ name tool @ '' Result: '' @ String_of rt result)))))"

text \<open>
  Execute custom logic tool (route.ts, lines 121 to 210): the \<^verbatim>\<open>try\<close> with its \<^verbatim>\<open>catch\<close>.
  The \<^verbatim>\<open>catch\<close> builds its text from \<^verbatim>\<open>error.message\<close> in a template literal; when that
  conversion throws, the exception leaves the function (\<open>Inl\<close>).
\<close>

definition executeCustomLogic :: "js_runtime \<Rightarrow> CustomTool \<Rightarrow> (string \<times> js_value) list \<Rightarrow> js_thrown + js_value" where
  "executeCustomLogic rt tool params =
    (case customLogic_try rt tool params of
       Inr r \<Rightarrow> Inr r
     | Inl (ThrownBadMessage e) \<Rightarrow> Inl e
     | Inl (Thrown error) \<Rightarrow>
         Inr (text_result
                (cross_mark @ '' Error executing custom logic: ''
                 @ (case error of ErrorObject message \<Rightarrow> message | NonError v \<Rightarrow> ''Unknown error'')
                 @ newline @ newline @ ''Please check your JavaScript code for syntax errors.'')))"

section \<open>API tools\<close>

definition isValidParamValue :: "js_value \<Rightarrow> bool" where
  "isValidParamValue v = (typeof v = ''string'' \<or> typeof v = ''number'' \<or> typeof v = ''boolean'')"

definition schema_keys :: "ToolSchema option \<Rightarrow> string list" where
  "schema_keys s =
     (case s of None \<Rightarrow> []
      | Some ts \<Rightarrow> (case properties ts of None \<Rightarrow> [] | Some props \<Rightarrow> map fst props))"

text \<open>
  One step of the \<^verbatim>\<open>forEach\<close> that distributes the parameters (route.ts, lines 237 to 253),
  on the pair of \<^verbatim>\<open>queryParams\<close> and \<^verbatim>\<open>bodyParams\<close>.
\<close>

definition distribute ::
  "string list \<Rightarrow> string list \<Rightarrow> http_method \<Rightarrow> string \<times> js_value \<Rightarrow>
   (string \<times> js_value) list \<times> (string \<times> js_value) list \<Rightarrow>
   (string \<times> js_value) list \<times> (string \<times> js_value) list" where
  "distribute queryKeys bodyKeys meth kv qb =
    (let key = fst kv; v = snd kv; queryParams = fst qb; bodyParams = snd qb in
     if v \<noteq> JUndefined \<and> v \<noteq> JStr [] \<and> isValidParamValue v then
       (if key \<in> set queryKeys then (obj_set key v queryParams, bodyParams)
        else if key \<in> set bodyKeys then (queryParams, obj_set key v bodyParams)
        else if meth = GET then (obj_set key v queryParams, bodyParams)
        else (queryParams, obj_set key v bodyParams))
     else qb)"

text \<open>The parameter router: both buckets for a tool, a method and an argument bag.\<close>

definition routeParams ::
  "CustomTool \<Rightarrow> http_method \<Rightarrow> (string \<times> js_value) list \<Rightarrow>
   (string \<times> js_value) list \<times> (string \<times> js_value) list" where
  "routeParams tool meth params =
     fold (distribute (schema_keys (querySchema tool)) (schema_keys (inputSchema tool)) meth)
          params ([], [])"

text \<open>
  The request that \<^verbatim>\<open>executeApiTool\<close> hands to \<^verbatim>\<open>fetch\<close> (route.ts, lines 218 to 278).
\<close>

definition apiRequest :: "js_runtime \<Rightarrow> CustomTool \<Rightarrow> ApiConfig \<Rightarrow> (string \<times> js_value) list \<Rightarrow> http_request" where
  "apiRequest rt tool cfg params =
    (let headers0 = (case headers cfg of Some h \<Rightarrow> h | None \<Rightarrow> []);
         qb = routeParams tool (api_method cfg) params;
         queryParams = fst qb;
         bodyParams = snd qb;
         baseUrl = takeWhile (\<lambda>c. c \<noteq> CHR ''?'') (url cfg);
         finalUrl =
           (if queryParams \<noteq> [] then
              baseUrl @ ''?'' @ URLSearchParams_toString rt
                (fold (\<lambda>kv urlParams. obj_set (fst kv) (String_of rt (snd kv)) urlParams) queryParams [])
            else baseUrl);
         withBody = (api_method cfg \<noteq> GET \<and> bodyParams \<noteq> [])
     in \<lparr> req_url = finalUrl,
          req_method = api_method cfg,
          req_headers = (if withBody then obj_set ''Content-Type'' ''application/json'' headers0 else headers0),
          req_body = (if withBody then Some (JSON_stringify rt (JObject bodyParams)) else None) \<rparr>)"

text \<open>The result built from the response (route.ts, lines 280 to 331).\<close>

definition apiResult :: "js_runtime \<Rightarrow> http_response \<Rightarrow> js_value" where
  "apiResult rt response =
    (let responseText = response_text response;
         responseJson = (case JSON_parse rt responseText of Some j \<Rightarrow> j | None \<Rightarrow> JStr responseText)
     in
       if \<not> ok response then
         JObject [(''content'', JArray [JObject [(''type'', JStr ''text''),
                    (''text'', JStr (''API Error '' @ String_of rt (JNum (of_int (status response))) @ '': ''
                       @ statusText response @ newline
                       @ (case responseJson of JStr s \<Rightarrow> s | _ \<Rightarrow> JSON_stringify_pretty rt responseJson)))]]),
                  (''isError'', JBool True)]
       else if typeof responseJson = ''string'' then
         text_result (case responseJson of JStr s \<Rightarrow> s | _ \<Rightarrow> [])
       else if typeof responseJson = ''object'' \<and> responseJson \<noteq> JNull then
         (if truthy (js_get responseJson ''content'') \<and> isArray (js_get responseJson ''content'')
          then responseJson
          else text_result (JSON_stringify_pretty rt responseJson))
       else text_result (String_of rt responseJson))"

text \<open>
  The assignment \<^verbatim>\<open>headers['Content-Type'] = 'application/json'\<close> (route.ts, line 271) as
  the descriptor sees it. \<^verbatim>\<open>headers\<close> is the object \<^verbatim>\<open>tool.apiConfig.headers\<close> itself when the
  descriptor has one, so that the descriptor changes; without one it is a new object
  (line 218) and the descriptor stays as it is.
\<close>

definition set_content_type :: "CustomTool \<Rightarrow> CustomTool" where
  "set_content_type tool =
    (case apiConfig tool of
       None \<Rightarrow> tool
     | Some cfg \<Rightarrow>
        (case headers cfg of
           None \<Rightarrow> tool
         | Some h \<Rightarrow>
             tool\<lparr>apiConfig := Some (cfg\<lparr>headers := Some (obj_set ''Content-Type'' ''application/json'' h)\<rparr>)\<rparr>))"

text \<open>
  Execute API tool (route.ts, lines 213 to 332). The result is what the call returns,
  \<open>Inl\<close> for an exception it lets out, with the descriptor object as the call leaves it:
  the header is written, when a body is sent, before \<^verbatim>\<open>fetch\<close> is called.
\<close>

definition executeApiTool ::
  "js_runtime \<Rightarrow> CustomTool \<Rightarrow> (string \<times> js_value) list \<Rightarrow> (js_thrown + js_value) \<times> CustomTool" where
  "executeApiTool rt tool params =
    (case apiConfig tool of
       None \<Rightarrow> (Inl (ErrorObject ''API configuration missing''), tool)
     | Some cfg \<Rightarrow>
         (let request = apiRequest rt tool cfg params;
              tool' = (if req_body request \<noteq> None then set_content_type tool else tool)
          in (case fetch rt request of
                Inl thrown \<Rightarrow> Inl thrown
              | Inr response \<Rightarrow> Inr (apiResult rt response),
              tool')))"

section \<open>The database module\<close>

text \<open>
  \<^verbatim>\<open>src/lib/database.ts\<close>. The process environment is a record of the three variables the
  module reads. The state of the module is its connection pool. The outcome of the
  query of \<^verbatim>\<open>getToolsFromDatabase\<close> belongs to the database server: \<open>store n\<close> is the
  outcome of the query for the call number \<open>n\<close> of \<^verbatim>\<open>getToolsFromDatabase\<close>, a failure or
  the rows. The counter \<open>list_calls\<close> is not a variable of the source: it counts the calls
  of \<^verbatim>\<open>getToolsFromDatabase\<close>, so that a statement can speak of their number.
\<close>

record environment =
  USEDB :: "string option"
  DATABASE_URL :: "string option"
  NODE_ENV :: "string option"

record Pool =
  connectionString :: string
  ssl_rejectUnauthorized :: "bool option"

record db_module =
  pool :: "Pool option"
  list_calls :: nat

record db_row =
  row_name :: string
  row_description :: "string option"
  custom_type :: "custom_type option"
  input_schema :: "ToolSchema option"
  query_schema :: "ToolSchema option"
  api_config :: "ApiConfig option"
  custom_logic :: "string option"

definition isDatabaseEnabled :: "environment \<Rightarrow> bool" where
  "isDatabaseEnabled env =
     (USEDB env = Some ''true'' \<and> (case DATABASE_URL env of Some u \<Rightarrow> u \<noteq> [] | None \<Rightarrow> False))"

definition getPool :: "environment \<Rightarrow> db_module \<Rightarrow> js_thrown + Pool \<times> db_module" where
  "getPool env dbm =
    (case pool dbm of
       Some p \<Rightarrow> Inr (p, dbm)
     | None \<Rightarrow>
        (if (case DATABASE_URL env of Some u \<Rightarrow> u = [] | None \<Rightarrow> True)
         then Inl (ErrorObject ''DATABASE_URL environment variable is not set'')
         else
           (let p = \<lparr> connectionString = the (DATABASE_URL env),
                      ssl_rejectUnauthorized =
                        (if NODE_ENV env = Some ''production'' then Some False else None) \<rparr>
            in Inr (p, dbm\<lparr>pool := Some p\<rparr>))))"

text \<open>
  \<^verbatim>\<open>initializeDatabase\<close>; \<open>ddl\<close> is the outcome of its two statements, \<open>Some e\<close> when one of
  them fails.
\<close>

definition initializeDatabase :: "environment \<Rightarrow> js_thrown option \<Rightarrow> db_module \<Rightarrow> (js_thrown + unit) \<times> db_module" where
  "initializeDatabase env ddl dbm =
    (if \<not> isDatabaseEnabled env then (Inr (), dbm)
     else
       (case getPool env dbm of
          Inl e \<Rightarrow> (Inl e, dbm)
        | Inr (client, dbm') \<Rightarrow>
            (case ddl of Some e \<Rightarrow> (Inl e, dbm') | None \<Rightarrow> (Inr (), dbm'))))"

definition row_to_tool :: "db_row \<Rightarrow> CustomTool" where
  "row_to_tool row =
     \<lparr> name = row_name row,
       tool_description = row_description row,
       inputSchema = input_schema row,
       querySchema = query_schema row,
       isCustom = Some True,
       customType = custom_type row,
       apiConfig = api_config row,
       customLogic = custom_logic row \<rparr>"

definition getToolsFromDatabase ::
  "environment \<Rightarrow> (nat \<Rightarrow> js_thrown + db_row list) \<Rightarrow> db_module \<Rightarrow> (js_thrown + CustomTool list) \<times> db_module" where
  "getToolsFromDatabase env store dbm =
    (let n = list_calls dbm; dbm1 = dbm\<lparr>list_calls := Suc n\<rparr> in
     if \<not> isDatabaseEnabled env then (Inl (ErrorObject ''Database is not enabled''), dbm1)
     else
       (case getPool env dbm1 of
          Inl e \<Rightarrow> (Inl e, dbm1)
        | Inr (client, dbm2) \<Rightarrow>
            (case store n of
               Inl e \<Rightarrow> (Inl e, dbm2)
             | Inr rows \<Rightarrow> (Inr (map row_to_tool rows), dbm2))))"

subsection \<open>The tools endpoint\<close>

text \<open>
  \<^verbatim>\<open>src/app/api/tools/route.ts\<close>: the guard \<^verbatim>\<open>ensureDbInitialized\<close> with its flag, and the
  \<^verbatim>\<open>GET\<close> handler. A response is the tools with their source, or the error response
  with its status and details.
\<close>

datatype tools_response =
    ToolsJson "CustomTool list" string
  | ErrorJson nat string string

definition ensureDbInitialized ::
  "environment \<Rightarrow> js_thrown option \<Rightarrow> bool \<times> db_module \<Rightarrow> (js_thrown + unit) \<times> bool \<times> db_module" where
  "ensureDbInitialized env ddl st =
    (let dbInitialized = fst st; dbm = snd st in
     if \<not> dbInitialized \<and> isDatabaseEnabled env then
       (case initializeDatabase env ddl dbm of
          (Inl e, dbm') \<Rightarrow> (Inl e, dbInitialized, dbm')
        | (Inr u, dbm') \<Rightarrow> (Inr (), True, dbm'))
     else (Inr (), dbInitialized, dbm))"

definition error_details :: "js_thrown \<Rightarrow> string" where
  "error_details e = (case e of ErrorObject message \<Rightarrow> message | NonError v \<Rightarrow> ''Unknown error'')"

definition GET_tools ::
  "environment \<Rightarrow> (nat \<Rightarrow> js_thrown + db_row list) \<Rightarrow> js_thrown option \<Rightarrow> bool \<times> db_module \<Rightarrow>
   tools_response \<times> bool \<times> db_module" where
  "GET_tools env store ddl st =
    (if isDatabaseEnabled env then
       (case ensureDbInitialized env ddl st of
          (Inl e, st') \<Rightarrow> (ErrorJson 500 ''Failed to fetch tools'' (error_details e), st')
        | (Inr u, dbInitialized, dbm) \<Rightarrow>
            (case getToolsFromDatabase env store dbm of
               (Inl e, dbm') \<Rightarrow> (ErrorJson 500 ''Failed to fetch tools'' (error_details e), dbInitialized, dbm')
             | (Inr tools, dbm') \<Rightarrow> (ToolsJson tools ''database'', dbInitialized, dbm')))
     else (ToolsJson [] ''localStorage'', st))"

section \<open>The cache of custom tools\<close>

record ToolsCache =
  tools :: "CustomTool list"
  timestamp :: int
  registered :: "string set"

definition toolsCache_initial :: ToolsCache where
  "toolsCache_initial = \<lparr> tools = [], timestamp = 0, registered = {} \<rparr>"

text \<open>Cache duration in milliseconds.\<close>

definition CACHE_DURATION :: int where
  "CACHE_DURATION = 5 * 1000"

text \<open>
  The test of \<^verbatim>\<open>loadCustomTools\<close> for answering from the cache at the time \<open>now\<close>
  (route.ts, line 340).
\<close>

definition cache_fresh :: "bool \<Rightarrow> int \<Rightarrow> ToolsCache \<Rightarrow> bool" where
  "cache_fresh forceReload now cache =
     (\<not> forceReload \<and> timestamp cache > 0 \<and> now - timestamp cache < CACHE_DURATION)"

text \<open>
  Load custom tools with caching (route.ts, lines 335 to 365). \<open>now\<close> is the value of
  \<^verbatim>\<open>Date.now()\<close>. The result is the returned list with the states of the cache and of the
  database module; the \<^verbatim>\<open>catch\<close> returns the cached tools.
\<close>

definition loadCustomTools ::
  "environment \<Rightarrow> (nat \<Rightarrow> js_thrown + db_row list) \<Rightarrow> int \<Rightarrow> bool \<Rightarrow> ToolsCache \<times> db_module \<Rightarrow>
   CustomTool list \<times> ToolsCache \<times> db_module" where
  "loadCustomTools env store now forceReload st =
    (let toolsCache = fst st; dbm = snd st in
     if cache_fresh forceReload now toolsCache then (tools toolsCache, toolsCache, dbm)
     else if isDatabaseEnabled env then
       (case getToolsFromDatabase env store dbm of
          (Inl error, dbm') \<Rightarrow> (tools toolsCache, toolsCache, dbm')
        | (Inr ts, dbm') \<Rightarrow> (ts, \<lparr> tools = ts, timestamp = now, registered = {} \<rparr>, dbm'))
     else ([], \<lparr> tools = [], timestamp = now, registered = {} \<rparr>, dbm))"

section \<open>Registration with the server\<close>

text \<open>
  What is registered under a name: a builtin tool of route.ts, or a custom tool with its
  description, its compiled parameters and the descriptor object its handler closes over,
  as that object is at the moment. The
  server object belongs to the MCP library; of it the development keeps the table of
  registered tools, in registration order, which is what an invocation by name looks up.
\<close>

datatype registration =
    BuiltinTool string
  | CustomToolHandler string "string \<rightharpoonup> zod_schema" CustomTool

type_synonym server = "(string \<times> registration) list"

text \<open>
  \<^verbatim>\<open>server.tool(name, ...)\<close> is a method of the MCP library, which refuses a name that is
  registered already by throwing, and adds the tool otherwise.
\<close>

definition server_tool :: "server \<Rightarrow> string \<Rightarrow> registration \<Rightarrow> js_thrown + server" where
  "server_tool srv n r =
     (if n \<in> fst ` set srv then Inl (ErrorObject (''Tool '' @ n @ '' is already registered''))
      else Inr (srv @ [(n, r)]))"

text \<open>The handler an invocation of a name reaches.\<close>

definition resolve :: "server \<Rightarrow> string \<Rightarrow> registration option" where
  "resolve srv n = map_of srv n"

text \<open>
  One step of the \<^verbatim>\<open>forEach\<close> of \<^verbatim>\<open>registerCustomTools\<close> (route.ts, lines 372 to 415), on
  the server and the cache; a failure of \<^verbatim>\<open>server.tool\<close> is caught and logged. The
  object spread of the two compiled schemas is the second map over the first.
\<close>

definition register_one :: "bool \<Rightarrow> CustomTool \<Rightarrow> server \<times> ToolsCache \<Rightarrow> server \<times> ToolsCache" where
  "register_one forceReload tool st =
    (let srv = fst st; toolsCache = snd st in
     if \<not> forceReload \<and> name tool \<in> registered toolsCache then st
     else
       (let allParams = buildZodSchema (inputSchema tool) ++ buildZodSchema (querySchema tool);
            descr = (case tool_description tool of
                       Some d \<Rightarrow> (if d \<noteq> [] then d else ''Custom tool: '' @ name tool)
                     | None \<Rightarrow> ''Custom tool: '' @ name tool)
        in case server_tool srv (name tool) (CustomToolHandler descr allParams tool) of
             Inl error \<Rightarrow> st
           | Inr srv' \<Rightarrow> (srv', toolsCache\<lparr>registered := insert (name tool) (registered toolsCache)\<rparr>)))"

text \<open>Dynamic tool registration function (route.ts, lines 369 to 420).\<close>

definition registerCustomTools ::
  "environment \<Rightarrow> (nat \<Rightarrow> js_thrown + db_row list) \<Rightarrow> int \<Rightarrow> bool \<Rightarrow> server \<times> ToolsCache \<times> db_module \<Rightarrow>
   server \<times> ToolsCache \<times> db_module" where
  "registerCustomTools env store now forceReload st =
    (let srv = fst st;
         loaded = loadCustomTools env store now forceReload (snd st);
         customTools = fst loaded;
         st2 = fold (register_one forceReload) customTools (srv, fst (snd loaded))
     in (fst st2, snd st2, snd (snd loaded)))"

text \<open>The names of the tools that route.ts defines itself, in the order of their registration.\<close>

definition builtin_names :: "string list" where
  "builtin_names =
     [''refresh_custom_tools'', ''url_validator'', ''json_formatter'', ''base64_converter'',
      ''hash_generator'', ''timestamp_converter'', ''qr_code_data'', ''email_validator'',
      ''slug_generator'', ''random_number'', ''text_transform'', ''generate_color'',
      ''generate_uuid'', ''generate_password'']"

text \<open>
  The registration of the builtin tools, one \<^verbatim>\<open>server.tool\<close> call after the other, none
  inside a \<^verbatim>\<open>try\<close>: the first failure ends the sequence.
\<close>

fun register_builtins :: "string list \<Rightarrow> server \<Rightarrow> js_thrown option \<times> server" where
  "register_builtins [] srv = (None, srv)"
| "register_builtins (n # ns) srv =
     (case server_tool srv n (BuiltinTool n) of
        Inl error \<Rightarrow> (Some error, srv)
      | Inr srv' \<Rightarrow> register_builtins ns srv')"

text \<open>
  The callback given to \<^verbatim>\<open>createMcpHandler\<close> (route.ts, lines 422 to 1017) on a server:
  the custom tools first, then the builtin tools. The result is the exception that ended
  it, if any, with the server, the cache and the database module as it leaves them.
\<close>

definition initializeServer ::
  "environment \<Rightarrow> (nat \<Rightarrow> js_thrown + db_row list) \<Rightarrow> int \<Rightarrow> server \<times> ToolsCache \<times> db_module \<Rightarrow>
   js_thrown option \<times> server \<times> ToolsCache \<times> db_module" where
  "initializeServer env store now st =
    (let st1 = registerCustomTools env store now False st;
         r = register_builtins builtin_names (fst st1)
     in (fst r, snd r, snd st1))"

subsection \<open>The handler of a custom tool\<close>

text \<open>
  The descriptors are objects, and \<^verbatim>\<open>executeApiTool\<close> writes into the one it is given. The
  object a handler closes over is an element of the array that was the cache at its
  registration; it is an element of the present cache as long as \<^verbatim>\<open>loadCustomTools\<close> has
  not put a new array in its place. The set \<open>shared\<close> is not a variable of the source: it
  holds the names whose registered descriptor is the same object as the first element of
  that name of the present cache, so that a write into one is a write into the other.

  \<^verbatim>\<open>loadCustomTools\<close> puts a new array in place of the cache when it does not answer from
  the cache and the database is disabled or answers.
\<close>

definition array_replaced ::
  "environment \<Rightarrow> (nat \<Rightarrow> js_thrown + db_row list) \<Rightarrow> int \<Rightarrow> bool \<Rightarrow> ToolsCache \<times> db_module \<Rightarrow> bool" where
  "array_replaced env store now forceReload st =
     (\<not> cache_fresh forceReload now (fst st) \<and>
      (\<not> isDatabaseEnabled env \<or> \<not> isl (fst (getToolsFromDatabase env store (snd st)))))"

text \<open>
  The shared names after \<^verbatim>\<open>registerCustomTools\<close>: none of the earlier ones when the array
  was replaced, and the names that the call has added to the server, each registered with
  an element of the present array.
\<close>

definition shared_after_register ::
  "environment \<Rightarrow> (nat \<Rightarrow> js_thrown + db_row list) \<Rightarrow> int \<Rightarrow> bool \<Rightarrow>
   server \<times> ToolsCache \<times> db_module \<Rightarrow> string set \<Rightarrow> string set" where
  "shared_after_register env store now forceReload st shared =
     (if array_replaced env store now forceReload (snd st) then {} else shared) \<union>
     (fst ` set (fst (registerCustomTools env store now forceReload st)) - fst ` set (fst st))"

text \<open>A write into the first element of a name of the cache, and into a registered descriptor.\<close>

fun replace_first :: "string \<Rightarrow> CustomTool \<Rightarrow> CustomTool list \<Rightarrow> CustomTool list" where
  "replace_first n t' [] = []"
| "replace_first n t' (t # ts) = (if name t = n then t' # ts else t # replace_first n t' ts)"

definition set_closure_tool :: "string \<Rightarrow> CustomTool \<Rightarrow> server \<Rightarrow> server" where
  "set_closure_tool n t' srv =
     map (\<lambda>e. if fst e = n then
                 (case snd e of
                    CustomToolHandler d ps t \<Rightarrow> (n, CustomToolHandler d ps t')
                  | BuiltinTool b \<Rightarrow> e)
               else e) srv"

text \<open>
  The first part of the handler of a custom tool (route.ts, lines 391 to 399): the reload
  when the cache is stale, the load, and the choice of the current descriptor. \<open>tool\<close> is
  the descriptor of the closure; \<open>now1\<close>, \<open>now2\<close> and \<open>now3\<close> are the readings of the
  clock: the handler's own, the one of the forced reload, and the one of the final
  \<^verbatim>\<open>loadCustomTools()\<close>. The result is the current descriptor, whether it was found in the
  cache, and the state with its shared names.
\<close>

definition handler_prepare ::
  "environment \<Rightarrow> (nat \<Rightarrow> js_thrown + db_row list) \<Rightarrow> int \<Rightarrow> int \<Rightarrow> int \<Rightarrow> CustomTool \<Rightarrow>
   (server \<times> ToolsCache \<times> db_module) \<times> string set \<Rightarrow>
   (CustomTool \<times> bool) \<times> (server \<times> ToolsCache \<times> db_module) \<times> string set" where
  "handler_prepare env store now1 now2 now3 tool sts =
    (let st = fst sts; shared = snd sts;
         toolsCache = fst (snd st);
         stale = (timestamp toolsCache = 0 \<or> now1 - timestamp toolsCache \<ge> CACHE_DURATION);
         st1 = (if stale then registerCustomTools env store now2 True st else st);
         shared1 = (if stale then shared_after_register env store now2 True st shared else shared);
         loaded = loadCustomTools env store now3 False (snd st1);
         shared2 = (if array_replaced env store now3 False (snd st1) then {} else shared1);
         currentTools = fst loaded;
         found = find (\<lambda>t. name t = name tool) currentTools;
         currentTool = (case found of Some t \<Rightarrow> t | None \<Rightarrow> tool)
     in ((currentTool, found \<noteq> None), (fst st1, snd loaded), shared2))"

text \<open>
  The handler of a custom tool (route.ts, lines 390 to 406). After the API executor the
  descriptor object it was given is written back where that object lives: in the cache
  when it was found there, and in the registration of the closure when it is the
  closure's own or shared with it. The custom logic executor writes nowhere.
\<close>

definition customToolHandler ::
  "js_runtime \<Rightarrow> environment \<Rightarrow> (nat \<Rightarrow> js_thrown + db_row list) \<Rightarrow> int \<Rightarrow> int \<Rightarrow> int \<Rightarrow>
   CustomTool \<Rightarrow> (string \<times> js_value) list \<Rightarrow> (server \<times> ToolsCache \<times> db_module) \<times> string set \<Rightarrow>
   (js_thrown + js_value) \<times> (server \<times> ToolsCache \<times> db_module) \<times> string set" where
  "customToolHandler rt env store now1 now2 now3 tool params sts =
    (let prepared = handler_prepare env store now1 now2 now3 tool sts;
         currentTool = fst (fst prepared);
         found = snd (fst prepared);
         srv = fst (fst (snd prepared));
         toolsCache = fst (snd (fst (snd prepared)));
         dbm = snd (snd (fst (snd prepared)));
         shared = snd (snd prepared)
     in if customType currentTool = Some api then
          (let r = executeApiTool rt currentTool params;
               tool' = snd r;
               toolsCache' = (if found
                              then toolsCache\<lparr>tools := replace_first (name tool) tool' (tools toolsCache)\<rparr>
                              else toolsCache);
               srv' = (if \<not> found \<or> name tool \<in> shared
                       then set_closure_tool (name tool) tool' srv else srv)
           in (fst r, (srv', toolsCache', dbm), shared))
        else (executeCustomLogic rt currentTool params, snd prepared))"

section \<open>Predicates for the statements\<close>

text \<open>
  The guard of the parameter distribution (route.ts, line 238): the value is defined, is
  not the empty string, and is a string, a number or a boolean.
\<close>

definition kept :: "js_value \<Rightarrow> bool" where
  "kept v = (v \<noteq> JUndefined \<and> v \<noteq> JStr [] \<and> isValidParamValue v)"

text \<open>
  The bucket of a key that passes the guard: the query parameters when the key is declared
  in the query schema, or in neither schema under the method GET.
\<close>

definition goes_to_query :: "string list \<Rightarrow> string list \<Rightarrow> http_method \<Rightarrow> string \<Rightarrow> bool" where
  "goes_to_query qk bk m k = (k \<in> set qk \<or> (k \<notin> set bk \<and> m = GET))"

text \<open>
  Every entry of the server table is the handler of a custom tool, registered under the
  name of that tool.
\<close>

definition custom_entries :: "server \<Rightarrow> bool" where
  "custom_entries srv = (\<forall>e \<in> set srv. \<exists>d ps t. snd e = CustomToolHandler d ps t \<and> name t = fst e)"

text \<open>
  The text that the \<^verbatim>\<open>catch\<close> of \<^verbatim>\<open>executeCustomLogic\<close> builds for an \<^verbatim>\<open>Error\<close> with the
  message \<open>msg\<close> (route.ts, line 206).
\<close>

definition error_text :: "string \<Rightarrow> string" where
  "error_text msg = cross_mark @ '' Error executing custom logic: '' @ msg @ newline @ newline
                    @ ''Please check your JavaScript code for syntax errors.''"

section \<open>Example data\<close>

text \<open>
  A runtime for the concrete evaluations: its codec and its network are placeholders, and
  its script evaluation throws \<^verbatim>\<open>Error("boom")\<close> on the script text that says so.
\<close>

definition runtime0 :: js_runtime where
  \<open>runtime0 =
     \<lparr> JSON_stringify = (\<lambda>v. ''json''),
       JSON_stringify_pretty = (\<lambda>v. ''json''),
       JSON_parse = (\<lambda>s. None),
       String_of = (\<lambda>v. case v of JStr s \<Rightarrow> s | _ \<Rightarrow> ''value''),
       URLSearchParams_toString = (\<lambda>kvs. concat (map (\<lambda>kv. fst kv @ ''='' @ snd kv @ ''&'') kvs)),
       run_script = (\<lambda>src params. if src = ''throw new Error("boom")''
                                    then Inl (Thrown (ErrorObject ''boom'')) else Inr JUndefined),
       fetch = (\<lambda>req. Inl (ErrorObject ''fetch failed'')) \<rparr>\<close>

definition colour_param :: ParameterSchema where
  "colour_param = \<lparr> ptype = ''string'', description = Some ''a colour'',
                    penum = Some [''Red'', ''Green''], minimum = None, maximum = None,
                    pdefault = Some (JStr ''Green'') \<rparr>"

definition date_param :: ParameterSchema where
  "date_param = \<lparr> ptype = ''date'', description = None,
                  penum = Some [''today''], minimum = Some 1, maximum = Some 2,
                  pdefault = None \<rparr>"

definition number_param :: ParameterSchema where
  "number_param = \<lparr> ptype = ''number'', description = None, penum = None,
                    minimum = None, maximum = None, pdefault = None \<rparr>"

definition router_config :: ApiConfig where
  "router_config = \<lparr> url = ''https://example.com/items?old=1'', api_method = POST,
                     headers = Some [(''Content-Type'', ''text/plain'')] \<rparr>"

definition router_tool :: CustomTool where
  "router_tool =
     \<lparr> name = ''items'', tool_description = None,
       inputSchema = Some \<lparr> stype = ''object'', properties = Some [(''b'', number_param)], required = None \<rparr>,
       querySchema = Some \<lparr> stype = ''object'', properties = Some [(''a'', number_param)], required = None \<rparr>,
       isCustom = Some True, customType = Some api, apiConfig = Some router_config,
       customLogic = None \<rparr>"

text \<open>
  Environments: the database selected with its connection string, selected without it,
  and not selected. A database module before its first use, a row whose name is the name
  of a builtin tool, a database that answers with this row and one that fails, and a cache
  filled at the time 1000.
\<close>

definition env_db :: environment where
  "env_db = \<lparr> USEDB = Some ''true'', DATABASE_URL = Some ''postgresql://db/mcp_tools'', NODE_ENV = None \<rparr>"

definition env_no_url :: environment where
  "env_no_url = \<lparr> USEDB = Some ''true'', DATABASE_URL = None, NODE_ENV = None \<rparr>"

definition env_local :: environment where
  "env_local = \<lparr> USEDB = None, DATABASE_URL = None, NODE_ENV = None \<rparr>"

definition db0 :: db_module where
  "db0 = \<lparr> pool = None, list_calls = 0 \<rparr>"

definition shadow_row :: db_row where
  "shadow_row = \<lparr> row_name = ''url_validator'', row_description = None, custom_type = Some normal,
                   input_schema = None, query_schema = None, api_config = None,
                   custom_logic = Some ''return 1'' \<rparr>"

definition store_rows :: "nat \<Rightarrow> js_thrown + db_row list" where
  "store_rows n = Inr [shadow_row]"

definition store_down :: "nat \<Rightarrow> js_thrown + db_row list" where
  "store_down n = Inl (ErrorObject ''connection refused'')"

definition old_cache :: ToolsCache where
  "old_cache = \<lparr> tools = [row_to_tool shadow_row], timestamp = 1000, registered = {''url_validator''} \<rparr>"

text \<open>The custom tool of the row above, and a script tool whose script throws.\<close>

definition shadow_tool :: CustomTool where
  "shadow_tool = row_to_tool shadow_row"

definition boom_tool :: CustomTool where
  \<open>boom_tool =
     \<lparr> name = ''boom'', tool_description = None, inputSchema = None, querySchema = None,
       isCustom = Some True, customType = Some normal, apiConfig = None,
       customLogic = Some ''throw new Error("boom")'' \<rparr>\<close>

text \<open>A second row with the name of a builtin tool, and a database with both rows.\<close>

definition json_row :: db_row where
  "json_row = \<lparr> row_name = ''json_formatter'', row_description = None, custom_type = Some normal,
                 input_schema = None, query_schema = None, api_config = None,
                 custom_logic = Some ''return 2'' \<rparr>"

definition json_tool :: CustomTool where
  "json_tool = row_to_tool json_row"

definition store_two :: "nat \<Rightarrow> js_thrown + db_row list" where
  "store_two n = Inr [json_row, shadow_row]"

text \<open>
  A server with the throwing script tool registered, and the cache it was registered
  from, filled at the time 1000; the registered descriptor is the element of the cache.
\<close>

definition boom_server :: server where
  "boom_server = [(''boom'', CustomToolHandler ''Custom tool: boom'' Map.empty boom_tool)]"

definition boom_cache :: ToolsCache where
  "boom_cache = \<lparr> tools = [boom_tool], timestamp = 1000, registered = {''boom''} \<rparr>"

text \<open>The same for the API tool of the router example.\<close>

definition router_server :: server where
  "router_server = [(''items'', CustomToolHandler ''Custom tool: items'' Map.empty router_tool)]"

definition router_cache :: ToolsCache where
  "router_cache = \<lparr> tools = [router_tool], timestamp = 1000, registered = {''items''} \<rparr>"

text \<open>The database module after its first successful query.\<close>

definition db1 :: db_module where
  "db1 = \<lparr> pool = Some \<lparr> connectionString = ''postgresql://db/mcp_tools'', ssl_rejectUnauthorized = None \<rparr>,
          list_calls = 1 \<rparr>"

section \<open>The compiled validators\<close>

text \<open>
  For a value that is given, the wrappers that \<^verbatim>\<open>parameterToZodSchema\<close> adds for the
  description and the default change nothing: the validator is the one chosen by the
  \<^verbatim>\<open>switch\<close> on the type.
\<close>

lemma validate_parameterToZodSchema:
  assumes "v \<noteq> JUndefined"
  shows "validate (parameterToZodSchema p) v =
         validate (if ptype p = ''string'' then (case penum p of Some vs \<Rightarrow> ZEnum vs | None \<Rightarrow> ZString)
                   else if ptype p = ''number'' then
                     (let s1 = (case minimum p of Some a \<Rightarrow> zod_min (ZNumber []) a | None \<Rightarrow> ZNumber []) in
                      (case maximum p of Some b \<Rightarrow> zod_max s1 b | None \<Rightarrow> s1))
                   else if ptype p = ''integer'' then
                     (let s1 = (case minimum p of Some a \<Rightarrow> zod_min (ZNumber [CheckInt]) a
                                | None \<Rightarrow> ZNumber [CheckInt]) in
                      (case maximum p of Some b \<Rightarrow> zod_max s1 b | None \<Rightarrow> s1))
                   else if ptype p = ''boolean'' then ZBoolean else ZString) v"
  using assms by (simp add: parameterToZodSchema_def Let_def split: option.splits)

text \<open>
  Claim C7. For a parameter of type string with an enum, the validator built by
  \<^verbatim>\<open>parameterToZodSchema\<close> accepts a given value, unchanged, exactly when it is one of the
  enum members as a string (the comparison is equality of strings, hence case-sensitive),
  and refuses every other given value with the enum mismatch error.
\<close>

theorem enum_validator:
  assumes "ptype p = ''string''" and "penum p = Some vs" and "v \<noteq> JUndefined"
  shows "validate (parameterToZodSchema p) v =
           (if v \<in> JStr ` set vs then Inr v else Inl EnumMismatch)"
proof -
  have "validate (parameterToZodSchema p) v = validate (ZEnum vs) v"
    using assms by (simp add: validate_parameterToZodSchema)
  also have "\<dots> = (if v \<in> JStr ` set vs then Inr v else Inl EnumMismatch)"
    using assms(3) by (cases v) auto
  finally show ?thesis .
qed

text \<open>
  The enum \<^verbatim>\<open>["Red", "Green"]\<close>: \<^verbatim>\<open>"Red"\<close> is accepted as it is, \<^verbatim>\<open>"red"\<close> and the number 3
  are refused.
\<close>

theorem enum_validator_witness:
  "validate (parameterToZodSchema colour_param) (JStr ''Red'') = Inr (JStr ''Red'') \<and>
   validate (parameterToZodSchema colour_param) (JStr ''red'') = Inl EnumMismatch \<and>
   validate (parameterToZodSchema colour_param) (JNum 3) = Inl EnumMismatch"
  using enum_validator [of colour_param "[''Red'', ''Green'']" "JStr ''Red''"]
        enum_validator [of colour_param "[''Red'', ''Green'']" "JStr ''red''"]
        enum_validator [of colour_param "[''Red'', ''Green'']" "JNum 3"]
  by (simp add: colour_param_def)

text \<open>
  Claim C10. For a parameter whose type is none of string, number, integer and boolean,
  \<^verbatim>\<open>parameterToZodSchema\<close> raises nothing and builds the validator of a plain string
  parameter: the one it builds for the same description and default with the type string
  and no enum. The enum, the minimum and the maximum have no influence on it, and it
  accepts every string.
\<close>

theorem unknown_kind_is_string:
  assumes "ptype p \<notin> {''string'', ''number'', ''integer'', ''boolean''}"
  shows "parameterToZodSchema p = parameterToZodSchema (p\<lparr>ptype := ''string'', penum := None\<rparr>) \<and>
         parameterToZodSchema (p\<lparr>penum := e, minimum := a, maximum := b\<rparr>) = parameterToZodSchema p \<and>
         validate (parameterToZodSchema p) (JStr s) = Inr (JStr s)"
proof -
  have v: "validate (parameterToZodSchema p) (JStr s) = validate ZString (JStr s)"
    using assms by (simp add: validate_parameterToZodSchema)
  show ?thesis using assms v by (simp add: parameterToZodSchema_def)
qed

text \<open>
  A parameter of the type \<^verbatim>\<open>date\<close> with an enum and bounds: the validator is
  \<^verbatim>\<open>z.string()\<close>, and a string outside the enum is accepted.
\<close>

theorem unknown_kind_is_string_witness:
  "parameterToZodSchema date_param = ZString \<and>
   validate (parameterToZodSchema date_param) (JStr ''tomorrow'') = Inr (JStr ''tomorrow'')"
  using unknown_kind_is_string [of date_param None None None "''tomorrow''"]
  by (simp add: date_param_def parameterToZodSchema_def)

section \<open>The parameter router\<close>

text \<open>Property assignment on the list of entries.\<close>

lemma obj_set_fresh: "k \<notin> fst ` set al \<Longrightarrow> obj_set k v al = al @ [(k, v)]"
  by (induction al) auto

lemma obj_set_keys: "fst ` set (obj_set k v al) = insert k (fst ` set al)"
  by (induction al) auto

lemma map_of_obj_set: "map_of (obj_set k v al) = (map_of al)(k \<mapsto> v)"
  by (induction al) auto

text \<open>A value that fails the guard leaves both buckets as they are.\<close>

lemma distribute_dropped:
  "snd kv = JUndefined \<or> snd kv = JStr [] \<or> \<not> isValidParamValue (snd kv) \<Longrightarrow>
   distribute qk bk m kv qb = qb"
  by (auto simp: distribute_def Let_def)

lemma fold_distribute_filter:
  assumes "\<And>kv. kv \<in> set ps \<Longrightarrow> \<not> P kv \<Longrightarrow>
             snd kv = JUndefined \<or> snd kv = JStr [] \<or> \<not> isValidParamValue (snd kv)"
  shows "fold (distribute qk bk m) (filter P ps) qb = fold (distribute qk bk m) ps qb"
  using assms
proof (induction ps arbitrary: qb)
  case Nil
  then show ?case by simp
next
  case (Cons kv ps)
  show ?case
  proof (cases "P kv")
    case True
    then show ?thesis using Cons by simp
  next
    case False
    then have "distribute qk bk m kv qb = qb"
      using Cons.prems[of kv] by (simp add: distribute_dropped)
    then show ?thesis using False Cons by simp
  qed
qed

text \<open>
  An argument bag has each key once. From empty buckets the loop then only appends: each
  bucket is the sublist of the entries that pass the guard and belong to it.
\<close>

lemma fold_distribute_distinct:
  assumes "distinct (map fst ps)"
      and "fst ` set ps \<inter> (fst ` set q \<union> fst ` set b) = {}"
  shows "fold (distribute qk bk m) ps (q, b) =
          (q @ filter (\<lambda>kv. kept (snd kv) \<and> goes_to_query qk bk m (fst kv)) ps,
           b @ filter (\<lambda>kv. kept (snd kv) \<and> \<not> goes_to_query qk bk m (fst kv)) ps)"
  using assms
proof (induction ps arbitrary: q b)
  case Nil
  then show ?case by simp
next
  case (Cons kv ps)
  obtain k v where kv: "kv = (k, v)" by (cases kv)
  have fresh: "k \<notin> fst ` set q" "k \<notin> fst ` set b" "k \<notin> fst ` set ps"
    using Cons.prems kv by auto
  have d: "distinct (map fst ps)" using Cons.prems by simp
  have disj: "fst ` set ps \<inter> (fst ` set q \<union> fst ` set b) = {}" using Cons.prems by auto
  show ?case
  proof (cases "kept v")
    case False
    then have "distribute qk bk m kv (q, b) = (q, b)"
      unfolding kv by (intro distribute_dropped) (auto simp: kept_def)
    then show ?thesis using False Cons.IH[OF d disj] kv by simp
  next
    case True
    show ?thesis
    proof (cases "goes_to_query qk bk m k")
      case q: True
      have step: "distribute qk bk m kv (q, b) = (q @ [(k, v)], b)"
        using True q fresh by (auto simp: distribute_def kv kept_def goes_to_query_def obj_set_fresh)
      have disj': "fst ` set ps \<inter> (fst ` set (q @ [(k, v)]) \<union> fst ` set b) = {}"
        using disj fresh by auto
      show ?thesis using Cons.IH[OF d disj'] step True q kv by simp
    next
      case nq: False
      have step: "distribute qk bk m kv (q, b) = (q, b @ [(k, v)])"
        using True nq fresh by (auto simp: distribute_def kv kept_def goes_to_query_def obj_set_fresh)
      have disj': "fst ` set ps \<inter> (fst ` set q \<union> fst ` set (b @ [(k, v)])) = {}"
        using disj fresh by auto
      show ?thesis using Cons.IH[OF d disj'] step True nq kv by simp
    qed
  qed
qed

lemma routeParams_distinct:
  assumes "distinct (map fst ps)"
  shows "routeParams tool m ps =
          (filter (\<lambda>kv. kept (snd kv) \<and> goes_to_query (schema_keys (querySchema tool)) (schema_keys (inputSchema tool)) m (fst kv)) ps,
           filter (\<lambda>kv. kept (snd kv) \<and> \<not> goes_to_query (schema_keys (querySchema tool)) (schema_keys (inputSchema tool)) m (fst kv)) ps)"
  unfolding routeParams_def using fold_distribute_distinct[OF assms, of "[]" "[]"] by simp

lemma map_of_filter_distinct:
  assumes "distinct (map fst ps)" "(k, v) \<in> set ps" "P (k, v)"
  shows "map_of (filter P ps) k = Some v"
proof -
  have "distinct (map fst (filter P ps))" using assms(1) by (simp add: distinct_map_filter)
  moreover have "(k, v) \<in> set (filter P ps)" using assms by simp
  ultimately show ?thesis by (rule map_of_is_SomeI)
qed

lemma key_notin_filter:
  assumes "distinct (map fst ps)" "(k, v) \<in> set ps" "\<not> P (k, v)"
  shows "k \<notin> fst ` set (filter P ps)"
proof
  assume "k \<in> fst ` set (filter P ps)"
  then obtain v' where "(k, v') \<in> set ps" "P (k, v')" by auto
  then have "v' = v" using assms(1,2) by (meson eq_key_imp_eq_value)
  then show False using \<open>P (k, v')\<close> assms(3) by simp
qed

lemmas router_eval = routeParams_def distribute_def schema_keys_def isValidParamValue_def
  router_tool_def router_config_def number_param_def Let_def


text \<open>
  Claim C5, as amended. In an argument bag (each key once), every key whose value passes the
  guard of the router (defined, not the empty string, and a string, a number or a
  boolean) is placed in exactly one bucket, with its value: in \<^verbatim>\<open>queryParams\<close> if the key is
  declared in the query schema, else in \<^verbatim>\<open>bodyParams\<close> if it is declared in the input
  schema, else in \<^verbatim>\<open>queryParams\<close> under the method GET and in \<^verbatim>\<open>bodyParams\<close> under any
  other method.
\<close>

theorem router_buckets:
  assumes "distinct (map fst params)" and "(k, v) \<in> set params"
      and "v \<noteq> JUndefined" and "v \<noteq> JStr []" and "isValidParamValue v"
  shows "(if k \<in> set (schema_keys (querySchema tool)) then
            map_of (fst (routeParams tool m params)) k = Some v \<and> k \<notin> fst ` set (snd (routeParams tool m params))
          else if k \<in> set (schema_keys (inputSchema tool)) then
            map_of (snd (routeParams tool m params)) k = Some v \<and> k \<notin> fst ` set (fst (routeParams tool m params))
          else if m = GET then
            map_of (fst (routeParams tool m params)) k = Some v \<and> k \<notin> fst ` set (snd (routeParams tool m params))
          else
            map_of (snd (routeParams tool m params)) k = Some v \<and> k \<notin> fst ` set (fst (routeParams tool m params)))"
proof -
  let ?g = "goes_to_query (schema_keys (querySchema tool)) (schema_keys (inputSchema tool)) m"
  have kv: "kept v" using assms by (simp add: kept_def)
  show ?thesis
  proof (cases "?g k")
    case True
    have "map_of (fst (routeParams tool m params)) k = Some v"
      using map_of_filter_distinct[OF assms(1,2), of "\<lambda>kv. kept (snd kv) \<and> ?g (fst kv)"] kv True
      by (simp add: routeParams_distinct[OF assms(1)])
    moreover have "k \<notin> fst ` set (snd (routeParams tool m params))"
      using key_notin_filter[OF assms(1,2), of "\<lambda>kv. kept (snd kv) \<and> \<not> ?g (fst kv)"] True
      by (simp add: routeParams_distinct[OF assms(1)])
    ultimately show ?thesis using True by (auto simp: goes_to_query_def)
  next
    case False
    have "map_of (snd (routeParams tool m params)) k = Some v"
      using map_of_filter_distinct[OF assms(1,2), of "\<lambda>kv. kept (snd kv) \<and> \<not> ?g (fst kv)"] kv False
      by (simp add: routeParams_distinct[OF assms(1)])
    moreover have "k \<notin> fst ` set (fst (routeParams tool m params))"
      using key_notin_filter[OF assms(1,2), of "\<lambda>kv. kept (snd kv) \<and> ?g (fst kv)"] False
      by (simp add: routeParams_distinct[OF assms(1)])
    ultimately show ?thesis using False by (auto simp: goes_to_query_def)
  qed
qed

text \<open>
  The example of the specification: query schema \<^verbatim>\<open>{a}\<close>, input schema \<^verbatim>\<open>{b}\<close>, method
  POST and arguments \<^verbatim>\<open>{a: 1, b: 2, c: 3}\<close> give \<^verbatim>\<open>queryParams = {a: 1}\<close> and
  \<^verbatim>\<open>bodyParams = {b: 2, c: 3}\<close>.
\<close>

theorem router_buckets_witness:
  "routeParams router_tool POST [(''a'', JNum 1), (''b'', JNum 2), (''c'', JNum 3)] =
     ([(''a'', JNum 1)], [(''b'', JNum 2), (''c'', JNum 3)]) \<and>
   map_of (snd (routeParams router_tool POST [(''a'', JNum 1), (''b'', JNum 2), (''c'', JNum 3)])) ''c''
     = Some (JNum 3) \<and>
   ''c'' \<notin> fst ` set (fst (routeParams router_tool POST [(''a'', JNum 1), (''b'', JNum 2), (''c'', JNum 3)]))"
  using router_buckets [of "[(''a'', JNum 1), (''b'', JNum 2), (''c'', JNum 3)]" "''c''" "JNum 3" router_tool POST]
  by (simp add: router_eval)

text \<open>
  Claim C5 as stated fails for a defined value that does not pass the guard: the key
  \<^verbatim>\<open>a\<close>, declared in the query schema and given the empty string, is in neither bucket.
\<close>

theorem router_empty_string_counterexample:
  "JStr [] \<noteq> JUndefined \<and>
   ''a'' \<in> set (schema_keys (querySchema router_tool)) \<and>
   routeParams router_tool POST [(''a'', JStr [])] = ([], [])"
  by (simp add: router_eval)

text \<open>
  Claim C9. An argument whose value is the empty string, or is not a string, a number or
  a boolean, is in neither bucket, and the request handed to \<^verbatim>\<open>fetch\<close> is the request
  for the argument bag without it.
\<close>

theorem dropped_arguments:
  assumes "(k, v) \<in> set params"
      and "distinct (map fst params)"
      and "v = JStr [] \<or> \<not> isValidParamValue v"
  shows "k \<notin> fst ` set (fst (routeParams tool m params)) \<and>
         k \<notin> fst ` set (snd (routeParams tool m params)) \<and>
         apiRequest rt tool cfg params = apiRequest rt tool cfg (filter (\<lambda>kv. kv \<noteq> (k, v)) params)"
proof -
  have nk: "\<not> kept v" using assms(3) by (auto simp: kept_def)
  have q: "k \<notin> fst ` set (fst (routeParams tool m params))"
    using key_notin_filter[OF assms(2,1)] nk by (simp add: routeParams_distinct[OF assms(2)])
  have b: "k \<notin> fst ` set (snd (routeParams tool m params))"
    using key_notin_filter[OF assms(2,1)] nk by (simp add: routeParams_distinct[OF assms(2)])
  have "routeParams tool m' (filter (\<lambda>kv. kv \<noteq> (k, v)) params) = routeParams tool m' params" for m'
    unfolding routeParams_def
    by (rule fold_distribute_filter) (use assms(3) in auto)
  then have "apiRequest rt tool cfg (filter (\<lambda>kv. kv \<noteq> (k, v)) params) = apiRequest rt tool cfg params"
    by (simp add: apiRequest_def)
  then show ?thesis using q b by simp
qed

text \<open>
  With \<^verbatim>\<open>{a: "", b: null, c: 3}\<close> only \<^verbatim>\<open>c\<close> is routed, and the request is the one for
  \<^verbatim>\<open>{c: 3}\<close>.
\<close>

theorem dropped_arguments_witness:
  "routeParams router_tool POST [(''a'', JStr []), (''b'', JNull), (''c'', JNum 3)] = ([], [(''c'', JNum 3)]) \<and>
   apiRequest runtime0 router_tool router_config [(''a'', JStr []), (''b'', JNull), (''c'', JNum 3)] =
   apiRequest runtime0 router_tool router_config [(''a'', JStr []), (''c'', JNum 3)] \<and>
   apiRequest runtime0 router_tool router_config [(''a'', JStr []), (''c'', JNum 3)] =
   apiRequest runtime0 router_tool router_config [(''c'', JNum 3)]"
  using dropped_arguments [of "''b''" JNull "[(''a'', JStr []), (''b'', JNull), (''c'', JNum 3)]"
          router_tool POST runtime0 router_config]
        dropped_arguments [of "''a''" "JStr []" "[(''a'', JStr []), (''c'', JNum 3)]"
          router_tool POST runtime0 router_config]
  by (simp add: router_eval)

text \<open>
  Claim C6, as amended. Under a method other than GET and with a non-empty \<^verbatim>\<open>bodyParams\<close>,
  the body of the request is the JSON encoding of \<^verbatim>\<open>bodyParams\<close>, and the header
  \<^verbatim>\<open>Content-Type\<close> of the request is \<^verbatim>\<open>application/json\<close> whatever the declared headers
  say: a declared \<^verbatim>\<open>Content-Type\<close> is replaced. Every header of another name is the
  declared one.
\<close>

theorem request_body_and_content_type:
  assumes "api_method cfg \<noteq> GET" and "snd (routeParams tool (api_method cfg) params) \<noteq> []"
  shows "req_body (apiRequest rt tool cfg params) =
           Some (JSON_stringify rt (JObject (snd (routeParams tool (api_method cfg) params)))) \<and>
         map_of (req_headers (apiRequest rt tool cfg params)) ''Content-Type'' = Some ''application/json'' \<and>
         (h \<noteq> ''Content-Type'' \<longrightarrow>
            map_of (req_headers (apiRequest rt tool cfg params)) h =
            map_of (case headers cfg of Some hs \<Rightarrow> hs | None \<Rightarrow> []) h)"
  using assms by (simp add: apiRequest_def Let_def map_of_obj_set)

text \<open>A POST with one body parameter and a declared content type \<^verbatim>\<open>text/plain\<close>.\<close>

theorem request_body_and_content_type_witness:
  "req_body (apiRequest runtime0 router_tool router_config [(''b'', JNum 2)]) =
     Some (JSON_stringify runtime0 (JObject [(''b'', JNum 2)])) \<and>
   req_headers (apiRequest runtime0 router_tool router_config [(''b'', JNum 2)]) =
     [(''Content-Type'', ''application/json'')]"
  using request_body_and_content_type [of router_config router_tool "[(''b'', JNum 2)]" runtime0 "''Accept''"]
  by (simp add: router_eval apiRequest_def)

text \<open>
  Claim C6 as stated fails when the declared headers have a \<^verbatim>\<open>Content-Type\<close>: the
  declared value \<^verbatim>\<open>text/plain\<close> is not left unchanged, the request carries
  \<^verbatim>\<open>application/json\<close>.
\<close>

theorem content_type_counterexample:
  "headers router_config = Some [(''Content-Type'', ''text/plain'')] \<and>
   api_method router_config \<noteq> GET \<and>
   snd (routeParams router_tool (api_method router_config) [(''b'', JNum 2)]) \<noteq> [] \<and>
   map_of (req_headers (apiRequest runtime0 router_tool router_config [(''b'', JNum 2)])) ''Content-Type''
     = Some ''application/json''"
  by (simp add: router_eval apiRequest_def)


section \<open>The cache and the database\<close>

lemmas db_eval = getToolsFromDatabase_def getPool_def isDatabaseEnabled_def loadCustomTools_def
  cache_fresh_def CACHE_DURATION_def Let_def

text \<open>
  Claim C3. When the cache is not answered from (it is stale, or the reload is forced), the
  database is enabled and the call of \<^verbatim>\<open>getToolsFromDatabase\<close> fails, \<^verbatim>\<open>loadCustomTools\<close>
  returns the tools of the cache as they were and leaves the cache as it was; it has no
  way of raising the failure to its caller.
\<close>

theorem failed_refresh_keeps_cache:
  assumes "\<not> cache_fresh forceReload now toolsCache"
      and "isDatabaseEnabled env"
      and "fst (getToolsFromDatabase env store dbm) = Inl e"
  shows "fst (loadCustomTools env store now forceReload (toolsCache, dbm)) = tools toolsCache \<and>
         fst (snd (loadCustomTools env store now forceReload (toolsCache, dbm))) = toolsCache"
  using assms by (cases "getToolsFromDatabase env store dbm") (auto simp: loadCustomTools_def Let_def)

text \<open>
  A cache filled at 1000 and read at 7000 while the database refuses the connection.
\<close>

theorem failed_refresh_keeps_cache_witness:
  "\<not> cache_fresh False 7000 old_cache \<and>
   fst (getToolsFromDatabase env_db store_down db0) = Inl (ErrorObject ''connection refused'') \<and>
   fst (loadCustomTools env_db store_down 7000 False (old_cache, db0)) = [row_to_tool shadow_row] \<and>
   fst (snd (loadCustomTools env_db store_down 7000 False (old_cache, db0))) = old_cache"
  using failed_refresh_keeps_cache [of False 7000 old_cache env_db store_down db0 "ErrorObject ''connection refused''"]
  by (simp add: db_eval env_db_def store_down_def db0_def old_cache_def)

text \<open>
  Whatever branch it takes, \<^verbatim>\<open>loadCustomTools\<close> returns the tools of the cache it leaves,
  and it calls \<^verbatim>\<open>getToolsFromDatabase\<close> once when it does not answer from the cache and the
  database is enabled, and not at all otherwise.
\<close>

lemma loadCustomTools_returns_cached:
  "fst (loadCustomTools env store now force st) = tools (fst (snd (loadCustomTools env store now force st)))"
  by (cases "getToolsFromDatabase env store (snd st)"; cases "fst (getToolsFromDatabase env store (snd st))")
     (auto simp: loadCustomTools_def Let_def)

lemma getToolsFromDatabase_calls:
  "list_calls (snd (getToolsFromDatabase env store dbm)) = Suc (list_calls dbm)"
  by (auto simp: getToolsFromDatabase_def getPool_def Let_def split: option.splits sum.splits)

lemma loadCustomTools_calls:
  "list_calls (snd (snd (loadCustomTools env store now force (c, dbm)))) =
     list_calls dbm + (if \<not> cache_fresh force now c \<and> isDatabaseEnabled env then 1 else 0)"
proof (cases "\<not> cache_fresh force now c \<and> isDatabaseEnabled env")
  case True
  then show ?thesis
    using getToolsFromDatabase_calls[of env store dbm]
    by (cases "getToolsFromDatabase env store dbm"; cases "fst (getToolsFromDatabase env store dbm)")
       (auto simp: loadCustomTools_def Let_def)
next
  case False
  then show ?thesis by (auto simp: loadCustomTools_def Let_def)
qed

text \<open>
  Claim C4, as amended. When the second of two calls of \<^verbatim>\<open>loadCustomTools\<close> without
  \<^verbatim>\<open>forceReload\<close> finds the cache fresh (a positive timestamp less than 5000 ms old), it
  is a no-op: it returns the same tools as the first call and leaves the cache and the
  database module as the first call left them, without a call of
  \<^verbatim>\<open>getToolsFromDatabase\<close>. Across the two calls \<^verbatim>\<open>getToolsFromDatabase\<close> is called once
  when the first call did not answer from the cache and the database is enabled, and not
  at all otherwise.
\<close>

theorem second_load_within_window:
  assumes "cache_fresh False now2 (fst (snd (loadCustomTools env store now1 False (toolsCache, dbm))))"
  shows "loadCustomTools env store now2 False (snd (loadCustomTools env store now1 False (toolsCache, dbm)))
           = loadCustomTools env store now1 False (toolsCache, dbm) \<and>
         list_calls (snd (snd (loadCustomTools env store now2 False
                                 (snd (loadCustomTools env store now1 False (toolsCache, dbm))))))
           = list_calls dbm + (if \<not> cache_fresh False now1 toolsCache \<and> isDatabaseEnabled env then 1 else 0)"
proof -
  let ?r1 = "loadCustomTools env store now1 False (toolsCache, dbm)"
  have "loadCustomTools env store now2 False (snd ?r1) = (tools (fst (snd ?r1)), fst (snd ?r1), snd (snd ?r1))"
    using assms by (simp add: loadCustomTools_def Let_def)
  also have "\<dots> = ?r1"
    using loadCustomTools_returns_cached[of env store now1 False "(toolsCache, dbm)"]
    by (simp add: prod_eq_iff)
  finally have eq: "loadCustomTools env store now2 False (snd ?r1) = ?r1" .
  show ?thesis unfolding eq using loadCustomTools_calls[of env store now1 False toolsCache dbm] by simp
qed

text \<open>
  From the initial cache with the database enabled: a load at 1000 and a load at 3000 make
  one call.
\<close>

theorem second_load_within_window_witness:
  "cache_fresh False 3000 (fst (snd (loadCustomTools env_db store_rows 1000 False (toolsCache_initial, db0)))) \<and>
   fst (loadCustomTools env_db store_rows 3000 False
          (snd (loadCustomTools env_db store_rows 1000 False (toolsCache_initial, db0))))
     = [row_to_tool shadow_row] \<and>
   list_calls (snd (snd (loadCustomTools env_db store_rows 3000 False
          (snd (loadCustomTools env_db store_rows 1000 False (toolsCache_initial, db0)))))) = 1"
  using second_load_within_window [of 3000 env_db store_rows 1000 toolsCache_initial db0]
  by (simp add: db_eval env_db_def store_rows_def db0_def toolsCache_initial_def)

text \<open>
  Claim C4 as stated fails: the number of calls across the two is zero, not one, when the
  database is not enabled (loads at 1000 and 3000 from the initial cache), and when the
  first call already finds the cache fresh (cache filled at 1000, loads at 2000 and 3000).
\<close>

theorem store_calls_counterexample:
  "cache_fresh False 3000 (fst (snd (loadCustomTools env_local store_rows 1000 False (toolsCache_initial, db0)))) \<and>
   list_calls db0 = 0 \<and>
   list_calls (snd (snd (loadCustomTools env_local store_rows 3000 False
          (snd (loadCustomTools env_local store_rows 1000 False (toolsCache_initial, db0)))))) = 0 \<and>
   cache_fresh False 3000 (fst (snd (loadCustomTools env_db store_rows 2000 False (old_cache, db0)))) \<and>
   list_calls (snd (snd (loadCustomTools env_db store_rows 3000 False
          (snd (loadCustomTools env_db store_rows 2000 False (old_cache, db0)))))) = 0"
  by (simp add: db_eval env_db_def env_local_def store_rows_def db0_def toolsCache_initial_def old_cache_def)

text \<open>
  Claim C8, as amended. With \<^verbatim>\<open>USEDB\<close> set to \<^verbatim>\<open>true\<close> and \<^verbatim>\<open>DATABASE_URL\<close> absent or empty,
  \<^verbatim>\<open>isDatabaseEnabled\<close> is false and every guarded path proceeds as without a database
  and signals nothing: \<^verbatim>\<open>initializeDatabase\<close> and \<^verbatim>\<open>ensureDbInitialized\<close> return without
  an error, \<^verbatim>\<open>GET /api/tools\<close> answers with no tools and the source \<^verbatim>\<open>localStorage\<close>, and
  a reload by \<^verbatim>\<open>loadCustomTools\<close> gives the empty list. Only the unguarded functions raise:
  \<^verbatim>\<open>getToolsFromDatabase\<close> that the database is not enabled, and \<^verbatim>\<open>getPool\<close>, when it has
  to create the pool, that \<^verbatim>\<open>DATABASE_URL\<close> is not set.
\<close>

theorem missing_connection_string:
  assumes "USEDB env = Some ''true''"
      and "DATABASE_URL env = None \<or> DATABASE_URL env = Some []"
  shows "\<not> isDatabaseEnabled env \<and>
         initializeDatabase env ddl dbm = (Inr (), dbm) \<and>
         ensureDbInitialized env ddl (i, dbm) = (Inr (), i, dbm) \<and>
         GET_tools env store ddl (i, dbm) = (ToolsJson [] ''localStorage'', i, dbm) \<and>
         loadCustomTools env store now True (toolsCache, dbm) =
           ([], \<lparr> tools = [], timestamp = now, registered = {} \<rparr>, dbm) \<and>
         fst (getToolsFromDatabase env store dbm) = Inl (ErrorObject ''Database is not enabled'') \<and>
         (pool dbm = None \<longrightarrow> getPool env dbm = Inl (ErrorObject ''DATABASE_URL environment variable is not set''))"
  using assms
  by (auto simp: isDatabaseEnabled_def initializeDatabase_def ensureDbInitialized_def GET_tools_def
      loadCustomTools_def getToolsFromDatabase_def getPool_def cache_fresh_def Let_def)

text \<open>The environment with \<^verbatim>\<open>USEDB=true\<close> and no \<^verbatim>\<open>DATABASE_URL\<close>.\<close>

theorem missing_connection_string_witness:
  "\<not> isDatabaseEnabled env_no_url \<and>
   GET_tools env_no_url store_rows None (False, db0) = (ToolsJson [] ''localStorage'', False, db0) \<and>
   getPool env_no_url db0 = Inl (ErrorObject ''DATABASE_URL environment variable is not set'')"
  using missing_connection_string [of env_no_url None db0 False store_rows 0 toolsCache_initial]
  by (simp add: env_no_url_def db0_def)

text \<open>
  Claim C8 as stated fails: with \<^verbatim>\<open>USEDB=true\<close> and no \<^verbatim>\<open>DATABASE_URL\<close> the initialisation of
  the database returns normally, the tools endpoint answers as the client-local backend,
  and the tool cache loads the empty list; no configuration error is signalled.
\<close>

theorem missing_connection_string_counterexample:
  "USEDB env_no_url = Some ''true'' \<and> DATABASE_URL env_no_url = None \<and>
   initializeDatabase env_no_url None db0 = (Inr (), db0) \<and>
   GET_tools env_no_url store_rows None (False, db0) = (ToolsJson [] ''localStorage'', False, db0) \<and>
   loadCustomTools env_no_url store_rows 1000 False (toolsCache_initial, db0) =
     ([], \<lparr> tools = [], timestamp = 1000, registered = {} \<rparr>, db0)"
  by (simp add: env_no_url_def db0_def isDatabaseEnabled_def initializeDatabase_def GET_tools_def
      loadCustomTools_def cache_fresh_def toolsCache_initial_def Let_def)

section \<open>Registration of custom and builtin tools\<close>

text \<open>
  One step of the registration without \<^verbatim>\<open>forceReload\<close>: a tool that is marked registered,
  or whose name the server has already, changes nothing; any other tool is added to the
  server under its name and marked.
\<close>

lemma register_one_cases:
  "register_one False t (srv, c) =
     (if name t \<in> registered c \<or> name t \<in> fst ` set srv then (srv, c)
      else (srv @ [(name t, CustomToolHandler
                      (case tool_description t of
                         Some d \<Rightarrow> (if d \<noteq> [] then d else ''Custom tool: '' @ name t)
                       | None \<Rightarrow> ''Custom tool: '' @ name t)
                      (buildZodSchema (inputSchema t) ++ buildZodSchema (querySchema t)) t)],
            c\<lparr>registered := insert (name t) (registered c)\<rparr>))"
  by (simp add: register_one_def server_tool_def Let_def)

lemma custom_entries_snoc:
  "custom_entries srv \<Longrightarrow> custom_entries (srv @ [(name t, CustomToolHandler d ps t)])"
  by (simp add: custom_entries_def)

lemma register_one_inv:
  assumes "registered c = R0 \<union> fst ` set srv" and "custom_entries srv"
  shows "registered (snd (register_one False t (srv, c))) = R0 \<union> fst ` set (fst (register_one False t (srv, c))) \<and>
         custom_entries (fst (register_one False t (srv, c))) \<and>
         fst ` set srv \<subseteq> fst ` set (fst (register_one False t (srv, c))) \<and>
         name t \<in> registered (snd (register_one False t (srv, c)))"
proof (cases "name t \<in> registered c \<or> name t \<in> fst ` set srv")
  case True
  then have "register_one False t (srv, c) = (srv, c)" by (simp add: register_one_cases)
  moreover have "name t \<in> registered c" using True assms(1) by blast
  ultimately show ?thesis using assms by simp
next
  case False
  define d where "d = (case tool_description t of
                         Some d \<Rightarrow> (if d \<noteq> [] then d else ''Custom tool: '' @ name t)
                       | None \<Rightarrow> ''Custom tool: '' @ name t)"
  define ps where "ps = buildZodSchema (inputSchema t) ++ buildZodSchema (querySchema t)"
  have r: "register_one False t (srv, c) =
      (srv @ [(name t, CustomToolHandler d ps t)], c\<lparr>registered := insert (name t) (registered c)\<rparr>)"
    using False by (simp add: register_one_cases d_def ps_def)
  have ce: "custom_entries (srv @ [(name t, CustomToolHandler d ps t)])"
    using assms(2) by (rule custom_entries_snoc)
  have k: "fst ` set (srv @ [(name t, CustomToolHandler d ps t)]) = insert (name t) (fst ` set srv)"
    by simp
  show ?thesis unfolding r fst_conv snd_conv k using assms(1) ce by auto
qed

lemma fold_register_one_inv:
  assumes "registered c = R0 \<union> fst ` set srv" and "custom_entries srv"
  shows "registered (snd (fold (register_one False) ts (srv, c))) =
           R0 \<union> fst ` set (fst (fold (register_one False) ts (srv, c))) \<and>
         custom_entries (fst (fold (register_one False) ts (srv, c))) \<and>
         fst ` set srv \<subseteq> fst ` set (fst (fold (register_one False) ts (srv, c))) \<and>
         name ` set ts \<subseteq> registered (snd (fold (register_one False) ts (srv, c)))"
  using assms
proof (induction ts arbitrary: srv c)
  case Nil
  then show ?case by simp
next
  case (Cons t ts)
  obtain srv1 c1 where s1: "register_one False t (srv, c) = (srv1, c1)" by (cases "register_one False t (srv, c)")
  have inv1: "registered c1 = R0 \<union> fst ` set srv1" "custom_entries srv1"
       "fst ` set srv \<subseteq> fst ` set srv1" "name t \<in> registered c1"
    using register_one_inv[OF Cons.prems, of t] s1 by auto
  have ih: "registered (snd (fold (register_one False) ts (srv1, c1))) =
           R0 \<union> fst ` set (fst (fold (register_one False) ts (srv1, c1))) \<and>
         custom_entries (fst (fold (register_one False) ts (srv1, c1))) \<and>
         fst ` set srv1 \<subseteq> fst ` set (fst (fold (register_one False) ts (srv1, c1))) \<and>
         name ` set ts \<subseteq> registered (snd (fold (register_one False) ts (srv1, c1)))"
    by (rule Cons.IH[OF inv1(1,2)])
  note ih1 = ih[THEN conjunct1]
  note ih2 = ih[THEN conjunct2, THEN conjunct1]
  note ih3 = ih[THEN conjunct2, THEN conjunct2, THEN conjunct1]
  note ih4 = ih[THEN conjunct2, THEN conjunct2, THEN conjunct2]
  have "name t \<in> R0 \<union> fst ` set srv1" using inv1(1,4) by simp
  then have "name t \<in> R0 \<union> fst ` set (fst (fold (register_one False) ts (srv1, c1)))"
    using ih3 by auto
  then have a: "name t \<in> registered (snd (fold (register_one False) ts (srv1, c1)))"
    using ih1 by simp
  have b: "fst ` set srv \<subseteq> fst ` set (fst (fold (register_one False) ts (srv1, c1)))"
    using inv1(3) ih3 by (rule subset_trans)
  have d: "name ` set (t # ts) \<subseteq> registered (snd (fold (register_one False) ts (srv1, c1)))"
    using a ih4 by auto
  have f: "fold (register_one False) (t # ts) (srv, c) = fold (register_one False) ts (srv1, c1)"
    using s1 by simp
  show ?case unfolding f by (intro conjI ih1 ih2 b d)
qed

lemma custom_entries_lookup:
  assumes "custom_entries srv" and "n \<in> fst ` set srv"
  shows "\<exists>d ps t. map_of srv n = Some (CustomToolHandler d ps t) \<and> name t = n"
proof -
  obtain r where r: "map_of srv n = Some r" using assms(2)
    by (auto dest: weak_map_of_SomeI)
  then have "(n, r) \<in> set srv" by (rule map_of_SomeD)
  then show ?thesis using assms(1) r by (fastforce simp: custom_entries_def)
qed

lemma map_of_snoc_keep:
  "n \<in> fst ` set srv \<Longrightarrow> map_of (srv @ [(m, r)]) n = map_of srv n"
  by (induction srv) auto

lemma register_builtins_keeps:
  assumes "n \<in> fst ` set srv"
  shows "map_of (snd (register_builtins ns srv)) n = map_of srv n"
  using assms
proof (induction ns arbitrary: srv)
  case Nil
  then show ?case by simp
next
  case (Cons m ns)
  show ?case
  proof (cases "m \<in> fst ` set srv")
    case True
    then show ?thesis by (simp add: server_tool_def)
  next
    case False
    have "n \<in> fst ` set (srv @ [(m, BuiltinTool m)])" using Cons.prems by auto
    then have "map_of (snd (register_builtins ns (srv @ [(m, BuiltinTool m)]))) n =
               map_of (srv @ [(m, BuiltinTool m)]) n" by (rule Cons.IH)
    moreover have "map_of (srv @ [(m, BuiltinTool m)]) n = map_of srv n"
      using Cons.prems by (rule map_of_snoc_keep)
    ultimately show ?thesis using False by (simp add: server_tool_def)
  qed
qed

lemma register_builtins_fails:
  assumes "n \<in> set ns" and "n \<in> fst ` set srv"
  shows "fst (register_builtins ns srv) \<noteq> None"
  using assms
proof (induction ns arbitrary: srv)
  case Nil
  then show ?case by simp
next
  case (Cons m ns)
  show ?case
  proof (cases "m \<in> fst ` set srv")
    case True
    then show ?thesis by (simp add: server_tool_def)
  next
    case False
    then have "n \<noteq> m" using Cons.prems by auto
    then have "n \<in> set ns" using Cons.prems by simp
    moreover have "n \<in> fst ` set (srv @ [(m, BuiltinTool m)])" using Cons.prems by auto
    ultimately have "fst (register_builtins ns (srv @ [(m, BuiltinTool m)])) \<noteq> None" by (rule Cons.IH)
    then show ?thesis using False by (simp add: server_tool_def)
  qed
qed

text \<open>
  Registrations are never replaced: \<^verbatim>\<open>registerCustomTools\<close>, forced or not, leaves every
  name that the server resolves resolved as before. On one server the first registration
  of a name is the one that stays.
\<close>

lemma register_one_result:
  "fst (register_one force t st) = fst st \<or>
   (name t \<notin> fst ` set (fst st) \<and> (\<exists>h. fst (register_one force t st) = fst st @ [(name t, h)]))"
  by (simp add: register_one_def server_tool_def Let_def)

lemma register_one_keeps:
  assumes "n \<in> fst ` set (fst st)"
  shows "n \<in> fst ` set (fst (register_one force t st)) \<and>
         map_of (fst (register_one force t st)) n = map_of (fst st) n"
proof -
  consider "fst (register_one force t st) = fst st"
    | h where "fst (register_one force t st) = fst st @ [(name t, h)]"
    using register_one_result[of force t st] by blast
  then show ?thesis
  proof cases
    case 1
    then show ?thesis using assms by simp
  next
    case 2
    then show ?thesis using assms map_of_snoc_keep[OF assms, of "name t" h] by simp
  qed
qed

lemma fold_register_one_keeps:
  assumes "n \<in> fst ` set (fst st)"
  shows "n \<in> fst ` set (fst (fold (register_one force) ts st)) \<and>
         map_of (fst (fold (register_one force) ts st)) n = map_of (fst st) n"
  using assms
proof (induction ts arbitrary: st)
  case Nil
  then show ?case by simp
next
  case (Cons t ts)
  note step = register_one_keeps[OF Cons.prems, of force t]
  note ih = Cons.IH[OF step[THEN conjunct1]]
  show ?case using ih step by simp
qed

lemma registerCustomTools_keeps:
  assumes "resolve srv n = Some r"
  shows "resolve (fst (registerCustomTools env store now force (srv, c, d))) n = Some r"
proof -
  have "n \<in> fst ` set srv" using assms
    by (metis resolve_def map_of_SomeD fst_conv image_eqI)
  then have "n \<in> fst ` set (fst (srv, fst (snd (loadCustomTools env store now force (c, d)))))" by simp
  note fold_register_one_keeps[OF this, of force "fst (loadCustomTools env store now force (c, d))"]
  then show ?thesis using assms by (simp add: registerCustomTools_def resolve_def Let_def)
qed

text \<open>
  The registration of the builtin tools ends with the refusal of the first name, in the
  order of registration, that the server has already; it goes through when there is none.
\<close>

lemma register_builtins_error:
  assumes "distinct ns"
  shows "fst (register_builtins ns srv) =
           map_option (\<lambda>m. ErrorObject (''Tool '' @ m @ '' is already registered''))
                      (find (\<lambda>n. n \<in> fst ` set srv) ns)"
  using assms
proof (induction ns arbitrary: srv)
  case Nil
  then show ?case by simp
next
  case (Cons m ns)
  show ?case
  proof (cases "m \<in> fst ` set srv")
    case True
    then show ?thesis by (simp add: server_tool_def)
  next
    case False
    have d: "distinct ns" and nm: "m \<notin> set ns" using Cons.prems by simp_all
    have "find (\<lambda>n. n \<in> fst ` set (srv @ [(m, BuiltinTool m)])) ns = find (\<lambda>n. n \<in> fst ` set srv) ns"
      using nm by (intro find_cong) auto
    then show ?thesis using False Cons.IH[OF d, of "srv @ [(m, BuiltinTool m)]"]
      by (simp add: server_tool_def)
  qed
qed

lemma distinct_builtin_names: "distinct builtin_names"
  by (simp add: builtin_names_def)

text \<open>
  Claim C1, as amended. The custom tools are registered before the builtin tools and
  without a test on builtin names. When a tool of the loaded snapshot has the name of a
  builtin tool and is not marked as registered, then on a new server the name resolves
  to the handler of a custom tool and not to the builtin tool. The callback ends with
  the exception by which the server refuses a builtin tool: the first builtin tool, in
  the order of registration, whose name a custom tool has been registered under (the
  name \<open>m\<close> below, which is the name of the claim when that is the only such name or the
  first); that name resolves to the handler of a custom tool as well.
\<close>

theorem custom_tool_shadows_builtin:
  assumes "t \<in> set (fst (loadCustomTools env store now False (toolsCache, dbm)))"
      and "name t \<in> set builtin_names"
      and "name t \<notin> registered (fst (snd (loadCustomTools env store now False (toolsCache, dbm))))"
  shows "(\<exists>d ps t'. resolve (fst (snd (initializeServer env store now ([], toolsCache, dbm)))) (name t)
                       = Some (CustomToolHandler d ps t') \<and> name t' = name t) \<and>
         (\<exists>m. find (\<lambda>n. n \<in> fst ` set (fst (registerCustomTools env store now False ([], toolsCache, dbm))))
                    builtin_names = Some m \<and>
               fst (initializeServer env store now ([], toolsCache, dbm))
                 = Some (ErrorObject (''Tool '' @ m @ '' is already registered'')) \<and>
               (\<exists>d ps t'. resolve (fst (snd (initializeServer env store now ([], toolsCache, dbm)))) m
                             = Some (CustomToolHandler d ps t') \<and> name t' = m))"
proof -
  let ?l = "loadCustomTools env store now False (toolsCache, dbm)"
  let ?f = "fold (register_one False) (fst ?l) ([], fst (snd ?l))"
  let ?P = "\<lambda>n. n \<in> fst ` set (fst ?f)"
  have reg: "fst (registerCustomTools env store now False ([], toolsCache, dbm)) = fst ?f"
    by (simp add: registerCustomTools_def Let_def)
  have init: "initializeServer env store now ([], toolsCache, dbm) =
                (fst (register_builtins builtin_names (fst ?f)),
                 snd (register_builtins builtin_names (fst ?f)),
                 snd (registerCustomTools env store now False ([], toolsCache, dbm)))"
    by (simp add: initializeServer_def Let_def reg)
  have pre: "registered (fst (snd ?l)) = registered (fst (snd ?l)) \<union> fst ` set ([] :: server)"
    by simp
  have pre2: "custom_entries []" by (simp add: custom_entries_def)
  note inv = fold_register_one_inv[OF pre pre2, of "fst ?l"]
  note i1 = inv[THEN conjunct1]
  note i4 = inv[THEN conjunct2, THEN conjunct2, THEN conjunct2]
  have "name t \<in> name ` set (fst ?l)" using assms(1) by (rule imageI)
  then have "name t \<in> registered (snd ?f)" using i4 by (rule subsetD[rotated])
  then have "name t \<in> registered (fst (snd ?l)) \<union> fst ` set (fst ?f)" using i1 by simp
  then have key: "name t \<in> fst ` set (fst ?f)" using assms(3) by simp
  note c = inv[THEN conjunct2, THEN conjunct1]
  have custom: "\<exists>d ps t'. resolve (snd (register_builtins builtin_names (fst ?f))) n
                             = Some (CustomToolHandler d ps t') \<and> name t' = n"
    if nk: "n \<in> fst ` set (fst ?f)" for n
  proof -
    have "map_of (snd (register_builtins builtin_names (fst ?f))) n = map_of (fst ?f) n"
      using nk by (rule register_builtins_keeps)
    moreover obtain d ps t' where "map_of (fst ?f) n = Some (CustomToolHandler d ps t')" "name t' = n"
      using custom_entries_lookup[OF c nk] by blast
    ultimately show ?thesis by (simp add: resolve_def)
  qed
  have "find ?P builtin_names \<noteq> None"
    using assms(2) key by (auto simp: find_None_iff)
  then obtain m where m: "find ?P builtin_names = Some m" by auto
  then have pm: "m \<in> fst ` set (fst ?f)" by (auto simp: find_Some_iff)
  have err: "fst (register_builtins builtin_names (fst ?f))
               = Some (ErrorObject (''Tool '' @ m @ '' is already registered''))"
    using register_builtins_error[OF distinct_builtin_names, of "fst ?f"] m by simp
  show ?thesis
    unfolding init reg fst_conv snd_conv
    using custom[OF key] custom[OF pm] m err by blast
qed

text \<open>
  The initial cache with a database whose only row is named \<^verbatim>\<open>url_validator\<close>, and with
  one that has the rows \<^verbatim>\<open>json_formatter\<close> and \<^verbatim>\<open>url_validator\<close>, step by step.
\<close>

lemma shadow_tool_fields:
  "name shadow_tool = ''url_validator''" "tool_description shadow_tool = None"
  "inputSchema shadow_tool = None" "querySchema shadow_tool = None"
  by (simp_all add: shadow_tool_def row_to_tool_def shadow_row_def)

lemma json_tool_fields:
  "name json_tool = ''json_formatter''" "tool_description json_tool = None"
  "inputSchema json_tool = None" "querySchema json_tool = None"
  by (simp_all add: json_tool_def row_to_tool_def json_row_def)

lemma load_shadow:
  "loadCustomTools env_db store_rows 1000 False (toolsCache_initial, db0) =
     ([shadow_tool], \<lparr> tools = [shadow_tool], timestamp = 1000, registered = {} \<rparr>, db1)"
  by (simp add: db_eval env_db_def store_rows_def db0_def db1_def toolsCache_initial_def shadow_tool_def)

lemma load_two:
  "loadCustomTools env_db store_two 1000 False (toolsCache_initial, db0) =
     ([json_tool, shadow_tool], \<lparr> tools = [json_tool, shadow_tool], timestamp = 1000, registered = {} \<rparr>, db1)"
  by (simp add: db_eval env_db_def store_two_def db0_def db1_def toolsCache_initial_def shadow_tool_def json_tool_def)

lemma register_shadow:
  "name shadow_tool \<notin> fst ` set srv \<Longrightarrow> ''url_validator'' \<notin> registered c \<Longrightarrow>
   register_one False shadow_tool (srv, c) =
     (srv @ [(''url_validator'', CustomToolHandler ''Custom tool: url_validator'' Map.empty shadow_tool)],
      c\<lparr>registered := insert ''url_validator'' (registered c)\<rparr>)"
  by (simp add: register_one_def server_tool_def shadow_tool_fields buildZodSchema_def)

lemma register_json:
  "name json_tool \<notin> fst ` set srv \<Longrightarrow> ''json_formatter'' \<notin> registered c \<Longrightarrow>
   register_one False json_tool (srv, c) =
     (srv @ [(''json_formatter'', CustomToolHandler ''Custom tool: json_formatter'' Map.empty json_tool)],
      c\<lparr>registered := insert ''json_formatter'' (registered c)\<rparr>)"
  by (simp add: register_one_def server_tool_def json_tool_fields buildZodSchema_def)

lemma register_custom_shadow:
  "registerCustomTools env_db store_rows 1000 False ([], toolsCache_initial, db0) =
     ([(''url_validator'', CustomToolHandler ''Custom tool: url_validator'' Map.empty shadow_tool)],
      \<lparr> tools = [shadow_tool], timestamp = 1000, registered = {''url_validator''} \<rparr>, db1)"
  by (simp add: registerCustomTools_def load_shadow register_shadow shadow_tool_fields)

lemma register_custom_two:
  "registerCustomTools env_db store_two 1000 False ([], toolsCache_initial, db0) =
     ([(''json_formatter'', CustomToolHandler ''Custom tool: json_formatter'' Map.empty json_tool),
       (''url_validator'', CustomToolHandler ''Custom tool: url_validator'' Map.empty shadow_tool)],
      \<lparr> tools = [json_tool, shadow_tool], timestamp = 1000,
        registered = {''url_validator'', ''json_formatter''} \<rparr>, db1)"
  by (simp add: registerCustomTools_def load_two register_shadow register_json
      shadow_tool_fields json_tool_fields)

lemma builtins_after_shadow:
  "register_builtins builtin_names [(''url_validator'', r)] =
     (Some (ErrorObject ''Tool url_validator is already registered''),
      [(''url_validator'', r), (''refresh_custom_tools'', BuiltinTool ''refresh_custom_tools'')])"
  by (simp add: builtin_names_def server_tool_def)

lemma builtins_after_two:
  "register_builtins builtin_names [(''json_formatter'', q), (''url_validator'', r)] =
     (Some (ErrorObject ''Tool url_validator is already registered''),
      [(''json_formatter'', q), (''url_validator'', r),
       (''refresh_custom_tools'', BuiltinTool ''refresh_custom_tools'')])"
  by (simp add: builtin_names_def server_tool_def)

lemma initialize_shadow:
  "initializeServer env_db store_rows 1000 ([], toolsCache_initial, db0) =
     (Some (ErrorObject ''Tool url_validator is already registered''),
      [(''url_validator'', CustomToolHandler ''Custom tool: url_validator'' Map.empty shadow_tool),
       (''refresh_custom_tools'', BuiltinTool ''refresh_custom_tools'')],
      \<lparr> tools = [shadow_tool], timestamp = 1000, registered = {''url_validator''} \<rparr>, db1)"
  by (simp add: initializeServer_def register_custom_shadow builtins_after_shadow)

lemma initialize_two:
  "initializeServer env_db store_two 1000 ([], toolsCache_initial, db0) =
     (Some (ErrorObject ''Tool url_validator is already registered''),
      [(''json_formatter'', CustomToolHandler ''Custom tool: json_formatter'' Map.empty json_tool),
       (''url_validator'', CustomToolHandler ''Custom tool: url_validator'' Map.empty shadow_tool),
       (''refresh_custom_tools'', BuiltinTool ''refresh_custom_tools'')],
      \<lparr> tools = [json_tool, shadow_tool], timestamp = 1000,
        registered = {''url_validator'', ''json_formatter''} \<rparr>, db1)"
  by (simp add: initializeServer_def register_custom_two builtins_after_two)

text \<open>
  With custom tools named \<^verbatim>\<open>json_formatter\<close> and \<^verbatim>\<open>url_validator\<close>, the hypotheses hold for
  \<^verbatim>\<open>json_formatter\<close>: the name resolves to the custom handler, and the callback ends with
  the refusal of \<^verbatim>\<open>url_validator\<close>, the builtin tool that is registered first.
\<close>

theorem custom_tool_shadows_builtin_witness:
  "json_tool \<in> set (fst (loadCustomTools env_db store_two 1000 False (toolsCache_initial, db0))) \<and>
   name json_tool \<in> set builtin_names \<and>
   resolve (fst (snd (initializeServer env_db store_two 1000 ([], toolsCache_initial, db0)))) (name json_tool)
     = Some (CustomToolHandler ''Custom tool: json_formatter'' Map.empty json_tool) \<and>
   find (\<lambda>n. n \<in> fst ` set (fst (registerCustomTools env_db store_two 1000 False ([], toolsCache_initial, db0))))
        builtin_names = Some ''url_validator'' \<and>
   fst (initializeServer env_db store_two 1000 ([], toolsCache_initial, db0))
     = Some (ErrorObject ''Tool url_validator is already registered'')"
  using custom_tool_shadows_builtin [of json_tool env_db store_two 1000 toolsCache_initial db0]
  by (simp add: load_two initialize_two register_custom_two json_tool_fields resolve_def builtin_names_def)

text \<open>
  Claim C1 as stated fails: \<^verbatim>\<open>url_validator\<close> names a builtin tool and a custom tool of
  the snapshot, the server resolves it to the handler of the custom tool, and the
  registration of the builtin tool ends the callback with the exception that the tool is
  already registered.
\<close>

theorem builtin_wins_counterexample:
  "''url_validator'' \<in> set builtin_names \<and>
   ''url_validator'' \<in> name ` set (fst (loadCustomTools env_db store_rows 1000 False (toolsCache_initial, db0))) \<and>
   resolve (fst (snd (initializeServer env_db store_rows 1000 ([], toolsCache_initial, db0)))) ''url_validator''
     = Some (CustomToolHandler ''Custom tool: url_validator'' Map.empty shadow_tool) \<and>
   fst (initializeServer env_db store_rows 1000 ([], toolsCache_initial, db0))
     = Some (ErrorObject ''Tool url_validator is already registered'')"
  by (simp add: initialize_shadow load_shadow shadow_tool_fields resolve_def builtin_names_def)

section \<open>Scripts that throw\<close>

text \<open>
  Trimming the empty string gives the empty string, and a string that neither starts nor
  ends with white space is left as it is.
\<close>

lemma strip_prefix_Nil: "strip_prefix ws [] = None"
  by (induction ws) auto

lemma strip_all_no_prefix: "strip_prefix ws s = None \<Longrightarrow> strip_all ws s = s"
  by (subst strip_all.simps) simp

lemma strip_all_Nil: "strip_all ws [] = []"
  by (simp add: strip_all_no_prefix strip_prefix_Nil)

lemma trim_Nil: "trim [] = []"
  by (simp add: trim_def strip_all_Nil)

text \<open>
  An exception leaves \<^verbatim>\<open>executeCustomLogic\<close> only when the script throws an \<^verbatim>\<open>Error\<close>
  whose message cannot be converted to a string.
\<close>

lemma executeCustomLogic_Inl:
  assumes "executeCustomLogic rt tool params = Inl e"
  shows "\<exists>src. customLogic tool = Some src \<and> run_script rt src params = Inl (ThrownBadMessage e)"
  using assms
  by (auto simp: executeCustomLogic_def customLogic_try_def split: sum.splits script_thrown.splits if_splits option.splits)

text \<open>
  Claim C2, as amended. When the handler of a custom tool finds as current descriptor a
  script tool (its type is not \<^verbatim>\<open>api\<close>) whose script throws an \<^verbatim>\<open>Error\<close> with a message that
  is a string, the invocation returns a result with one text block whose text contains
  the message, and the result has no \<^verbatim>\<open>isError\<close> field. The exception does not leave
  \<^verbatim>\<open>executeCustomLogic\<close> or the handler, and the handler leaves the server, the cache, the
  database module and the descriptors exactly as its reload and load steps left them,
  with no trace of the script, its arguments or its outcome: later invocations start from
  the state they would start from after a script that returned.
\<close>

theorem script_error_result:
  assumes "fst (handler_prepare env store now1 now2 now3 tool sts) = (cur, found)"
      and "customType cur \<noteq> Some api"
      and "customLogic cur = Some src" and "trim src \<noteq> []"
      and "run_script rt src params = Inl (Thrown (ErrorObject msg))"
  shows "customToolHandler rt env store now1 now2 now3 tool params sts =
           (Inr (text_result (error_text msg)), snd (handler_prepare env store now1 now2 now3 tool sts)) \<and>
         executeCustomLogic rt cur params = Inr (text_result (error_text msg)) \<and>
         result_texts (text_result (error_text msg)) = [error_text msg] \<and>
         sublist msg (error_text msg) \<and>
         isError (text_result (error_text msg)) = JUndefined"
proof -
  have ne: "src \<noteq> []" using assms(4) trim_Nil by auto
  have a: "customLogic_try rt cur params = Inl (Thrown (ErrorObject msg))"
    using assms(3,4,5) ne by (simp add: customLogic_try_def)
  have b: "executeCustomLogic rt cur params = Inr (text_result (error_text msg))"
    using a by (simp add: executeCustomLogic_def error_text_def)
  have c: "sublist msg ((cross_mark @ '' Error executing custom logic: '') @ msg @ (newline @ newline
                             @ ''Please check your JavaScript code for syntax errors.''))"
    by (rule sublist_appendI)
  have d: "fst (fst (handler_prepare env store now1 now2 now3 tool sts)) = cur"
    using assms(1) by simp
  have h: "customToolHandler rt env store now1 now2 now3 tool params sts =
           (Inr (text_result (error_text msg)), snd (handler_prepare env store now1 now2 now3 tool sts))"
    using assms(2) b d by (simp add: customToolHandler_def Let_def)
  show ?thesis using h b c
    by (simp add: text_result_def result_texts_def isError_def error_text_def)
qed

text \<open>
  The script \<^verbatim>\<open>throw new Error("boom")\<close> on a server where it is registered, with a fresh
  cache: the text of the result contains \<^verbatim>\<open>boom\<close>, and the state is unchanged.
\<close>

lemma trim_boom: \<open>trim ''throw new Error("boom")'' = ''throw new Error("boom")''\<close>
proof -
  have a: \<open>strip_all white_space ''throw new Error("boom")'' = ''throw new Error("boom")''\<close>
    by (rule strip_all_no_prefix) (simp add: white_space_def)
  have b: \<open>strip_all (map rev white_space) (rev ''throw new Error("boom")'') = rev ''throw new Error("boom")''\<close>
    by (rule strip_all_no_prefix) (simp add: white_space_def)
  show ?thesis unfolding trim_def a b by simp
qed

lemma boom_tool_fields:
  \<open>name boom_tool = ''boom''\<close> \<open>customType boom_tool = Some normal\<close>
  \<open>customLogic boom_tool = Some ''throw new Error("boom")''\<close>
  by (simp_all add: boom_tool_def)

lemma runtime0_boom:
  \<open>run_script runtime0 ''throw new Error("boom")'' params = Inl (Thrown (ErrorObject ''boom''))\<close>
  by (simp add: runtime0_def)

lemma boom_prepare:
  "handler_prepare env_local store_rows 2000 2000 2000 boom_tool ((boom_server, boom_cache, db0), {''boom''})
     = ((boom_tool, True), (boom_server, boom_cache, db0), {''boom''})"
  by (simp add: handler_prepare_def array_replaced_def loadCustomTools_def cache_fresh_def
      CACHE_DURATION_def boom_cache_def boom_tool_fields Let_def)

theorem script_error_result_witness:
  "customToolHandler runtime0 env_local store_rows 2000 2000 2000 boom_tool []
       ((boom_server, boom_cache, db0), {''boom''}) =
     (Inr (text_result (error_text ''boom'')), (boom_server, boom_cache, db0), {''boom''}) \<and>
   sublist ''boom'' (error_text ''boom'')"
  using script_error_result [of env_local store_rows 2000 2000 2000 boom_tool
          "((boom_server, boom_cache, db0), {''boom''})" boom_tool True
          "''throw new Error(\"boom\")''" runtime0 "[]" "''boom''"]
  by (simp add: boom_prepare trim_boom boom_tool_fields runtime0_boom)

text \<open>
  Claim C2 as stated fails on the error flag: for the script \<^verbatim>\<open>throw new Error("boom")\<close>
  the result of \<^verbatim>\<open>executeCustomLogic\<close> does not have \<^verbatim>\<open>isError\<close> true.
\<close>

theorem script_error_flag_counterexample:
  \<open>customLogic boom_tool = Some ''throw new Error("boom")'' \<and>
   (\<exists>r. executeCustomLogic runtime0 boom_tool [] = Inr r \<and> isError r \<noteq> JBool True)\<close>
  by (simp add: boom_tool_fields runtime0_boom trim_boom executeCustomLogic_def
      customLogic_try_def text_result_def isError_def)

text \<open>
  For comparison, the handler of an API tool does leave a trace: a call that sends a
  body replaces the declared \<^verbatim>\<open>Content-Type\<close> in the descriptor of the cache and of the
  registration, which are one object here; a call without a body leaves both as they are.
\<close>



lemma router_tool_fields:
  "name router_tool = ''items''" "customType router_tool = Some api"
  "apiConfig router_tool = Some router_config"
  by (simp_all add: router_tool_def)

lemma router_prepare:
  "handler_prepare env_local store_rows 2000 2000 2000 router_tool ((router_server, router_cache, db0), {''items''})
     = ((router_tool, True), (router_server, router_cache, db0), {''items''})"
  by (simp add: handler_prepare_def array_replaced_def loadCustomTools_def cache_fresh_def
      CACHE_DURATION_def router_cache_def router_tool_fields Let_def)

lemma router_body:
  "req_body (apiRequest runtime0 router_tool router_config [(''b'', JNum 2)]) \<noteq> None"
  "req_body (apiRequest runtime0 router_tool router_config []) = None"
  by (simp_all add: apiRequest_def routeParams_def distribute_def schema_keys_def isValidParamValue_def
      router_tool_def router_config_def number_param_def Let_def)

lemma router_execute:
  "snd (executeApiTool runtime0 router_tool [(''b'', JNum 2)]) = set_content_type router_tool"
  "snd (executeApiTool runtime0 router_tool []) = router_tool"
  by (simp_all add: executeApiTool_def router_tool_fields router_body Let_def)

lemma router_written:
  "apiConfig (set_content_type router_tool) =
     Some (router_config\<lparr>headers := Some [(''Content-Type'', ''application/json'')]\<rparr>)"
  by (simp add: set_content_type_def router_tool_fields router_config_def)

lemma router_writes:
  "set_closure_tool ''items'' t' router_server = [(''items'', CustomToolHandler ''Custom tool: items'' Map.empty t')]"
  "router_cache\<lparr>tools := replace_first ''items'' t' (tools router_cache)\<rparr> = router_cache\<lparr>tools := [t']\<rparr>"
  by (simp_all add: set_closure_tool_def router_server_def router_cache_def router_tool_fields)

lemma api_handler_writes_descriptor:
  "snd (customToolHandler runtime0 env_local store_rows 2000 2000 2000 router_tool [(''b'', JNum 2)]
          ((router_server, router_cache, db0), {''items''})) =
     (([(''items'', CustomToolHandler ''Custom tool: items'' Map.empty (set_content_type router_tool))],
       router_cache\<lparr>tools := [set_content_type router_tool]\<rparr>, db0), {''items''})"
  by (simp add: customToolHandler_def router_prepare router_execute router_tool_fields router_writes Let_def)

lemma api_handler_without_body:
  "snd (customToolHandler runtime0 env_local store_rows 2000 2000 2000 router_tool []
          ((router_server, router_cache, db0), {''items''})) =
     (([(''items'', CustomToolHandler ''Custom tool: items'' Map.empty router_tool)],
       router_cache\<lparr>tools := [router_tool]\<rparr>, db0), {''items''})"
  by (simp add: customToolHandler_def router_prepare router_execute router_tool_fields router_writes Let_def)

end
